theory Spec2Isabelle
  imports Complex_Main "HOL-Library.AList"
begin

section \<open>Propeller map ingestion (subsystems/propulsion/propeller\_map.py)\<close>

text \<open>
  Modelled from the spec: the enumeration \<open>PropModelVariables\<close> is declared in
  \<open>aviary.subsystems.propulsion.utils\<close>, which is not among the sources. Its members are
  the four keys of the \<open>aliases\<close> dictionary of the module (\<open>mach\<close>, \<open>cp\<close>, \<open>ct\<close>,
  \<open>j\<close> in the header schema of the spec).
\<close>

datatype PropModelVariables = MACH | CP | CT | J

definition PropModelVariables_members :: "PropModelVariables list" where
  "PropModelVariables_members = [MACH, CP, CT, J]"

text \<open>
  A key of the table returned by \<open>read_data_file(data_file, aliases=aliases)\<close>: a member
  of the enumeration for a header that matched one of its aliases, the header string itself
  otherwise. \<open>key in aliases\<close> holds exactly for the first kind.
\<close>

datatype data_key = Var PropModelVariables | Hdr string


datatype error = TypeError | UserWarning | KeyError | RuntimeError | AnalysisError

text \<open>
  What \<open>_read_data\<close> takes from outside the module: \<open>convert_units\<close> (\<open>None\<close> is its
  \<open>TypeError\<close> on incompatible units), the table \<open>default_prop_units\<close>, and the value of
  \<open>self.get_val(Settings.VERBOSITY).value\<close> (\<open>Inl\<close> when the lookup raises).
\<close>

record env =
  convert_units :: "real \<Rightarrow> string \<Rightarrow> string \<Rightarrow> real option"
  default_prop_units :: "PropModelVariables \<Rightarrow> string"
  verbosity :: "error + int"

text \<open>
  The attributes of a \<open>PropellerMap\<close> that \<open>__init__\<close> and \<open>_read_data\<close> write, each
  dictionary in insertion order, and the warnings issued (the unrecognised header of each).
\<close>

record PropellerMap =
  original_data :: "(data_key \<times> real list) list"
  data :: "(PropModelVariables \<times> real list) list"
  propeller_variables :: "(PropModelVariables \<times> string) list"
  warnings :: "string list"

definition PropellerMap_new :: PropellerMap where
  "PropellerMap_new =
     \<lparr> original_data = map (\<lambda>key. (Var key, [])) PropModelVariables_members,
       data = map (\<lambda>key. (key, [])) PropModelVariables_members,
       propeller_variables = [],
       warnings = [] \<rparr>"

text \<open>The loop over \<open>get_keys(raw_data)\<close>; each entry is a key with its \<open>(val, units)\<close> item.\<close>

fun read_loop :: "env \<Rightarrow> (data_key \<times> real list \<times> string) list \<Rightarrow> PropellerMap
    \<Rightarrow> error + PropellerMap" where
  "read_loop e [] pm = Inr pm"
| "read_loop e ((Var k, val, units) # rest) pm =
     (case those (map (\<lambda>i. convert_units e i units (default_prop_units e k)) val) of
        None \<Rightarrow> Inl TypeError
      | Some val' \<Rightarrow>
          read_loop e rest
            (pm\<lparr> propeller_variables :=
                   AList.update k (default_prop_units e k) (propeller_variables pm),
                 original_data := AList.update (Var k) val' (original_data pm) \<rparr>))"
| "read_loop e ((Hdr h, val, units) # rest) pm =
     (case verbosity e of
        Inl err \<Rightarrow> Inl err
      | Inr v \<Rightarrow>
          read_loop e rest
            (pm\<lparr> warnings := (if v \<ge> 1 then warnings pm @ [h] else warnings pm),
                 original_data := AList.update (Hdr h) val (original_data pm) \<rparr>))"

text \<open>The final loop \<open>for key in self.data: self.data[key] = self._original_data[key]\<close>.\<close>

fun copy_data :: "(data_key \<times> real list) list \<Rightarrow> PropModelVariables list
    \<Rightarrow> (PropModelVariables \<times> real list) list \<Rightarrow> error + (PropModelVariables \<times> real list) list" where
  "copy_data orig [] d = Inr d"
| "copy_data orig (key # keys) d =
     (case map_of orig (Var key) of
        None \<Rightarrow> Inl KeyError
      | Some v \<Rightarrow> copy_data orig keys (AList.update key v d))"

definition read_data :: "env \<Rightarrow> (data_key \<times> real list \<times> string) list \<Rightarrow> PropellerMap
    \<Rightarrow> error + PropellerMap" where
  "read_data e raw_data pm =
     (case read_loop e raw_data pm of
        Inl err \<Rightarrow> Inl err
      | Inr pm1 \<Rightarrow>
          if propeller_variables pm1 = [] then Inl UserWarning
          else (case copy_data (original_data pm1) (map fst (data pm1)) (data pm1) of
                  Inl err \<Rightarrow> Inl err
                | Inr d \<Rightarrow> Inr (pm1\<lparr> data := d \<rparr>)))"

text \<open>\<open>PropellerMap.__init__\<close>, with the table read from the data file as its argument.\<close>

definition PropellerMap_init :: "env \<Rightarrow> (data_key \<times> real list \<times> string) list
    \<Rightarrow> error + PropellerMap" where
  "PropellerMap_init e raw_data = read_data e raw_data PropellerMap_new"




section \<open>Phase ODE assembly (mission/gasp\_based/ode)\<close>

subsection \<open>Keyword arguments and subsystem builders\<close>

datatype pyval = PInt int | PReal real | PStr string | PBool bool | PNone | PObj string

type_synonym kwargs = "(string \<times> pyval) list"

text \<open>\<open>d.update(other)\<close> on dictionaries kept in insertion order.\<close>

definition dict_update :: "('k \<times> 'v) list \<Rightarrow> ('k \<times> 'v) list \<Rightarrow> ('k \<times> 'v) list" where
  "dict_update d other = fold (\<lambda>(k, v). AList.update k v) other d"

datatype promote = Name string | Alias string string

datatype LegacyCode = FLOPS | GASP

datatype pyclass = AerodynamicsBuilderBase | PropulsionBuilderBase | OtherClass string

datatype system = System string

text \<open>
  A subsystem builder: its name, the classes of its type in method resolution order (the
  type itself first), its \<open>code_origin\<close>, and its three methods as functions of the
  keyword arguments.
\<close>

record builder =
  name :: string
  mro :: "pyclass list"
  code_origin :: "LegacyCode option"
  build_mission :: "kwargs \<Rightarrow> system option"
  mission_inputs :: "kwargs \<Rightarrow> promote list"
  mission_outputs :: "kwargs \<Rightarrow> promote list"

definition isinstance :: "builder \<Rightarrow> pyclass \<Rightarrow> bool" where
  "isinstance s c = (c \<in> set (mro s))"

definition type_is :: "builder \<Rightarrow> pyclass \<Rightarrow> bool" where
  "type_is s c = (case mro s of [] \<Rightarrow> False | t # _ \<Rightarrow> t = c)"

subsection \<open>Components, balances and solvers\<close>

datatype SpeedType = TAS | EAS | SpeedType_MACH

datatype AnalysisScheme = COLLOCATION | SHOOTING

datatype throttle_policy = path_constraint | boundary_constraint | bounded

text \<open>One \<open>add_balance\<close> call of a \<open>BalanceComp\<close>.\<close>

record balance =
  bal_name :: string
  bal_units :: string
  bal_val :: "real list"
  lhs_name :: string
  rhs_name :: string
  eq_units :: string
  normalize :: bool
  lower :: "real option"
  upper :: "real option"
  res_ref :: "real option"

text \<open>A variable of an \<open>ExecComp\<close>: name, units, value, shape (tags are left out).\<close>

datatype exec_var = ExecVar string "string option" "real list option" "nat option"

text \<open>The right-hand side of the one assignment that an \<open>ExecComp\<close> evaluates.\<close>

datatype expr =
    V string
  | At string nat
  | Const real
  | Sub expr expr
  | Mul expr expr
  | Div expr expr

datatype component =
    ParamPort
  | Atmosphere nat bool
  | GammaComp nat
  | UnsteadySolvedFlightConditions nat bool SpeedType
  | Group
  | BalanceComp "balance list"
  | ExecComp string expr "exec_var list"
  | UnsteadySolvedEOM nat bool
  | GroundrollEOM nat
  | Subsystem system

datatype scope = top_level | control_iter_group | throttle_balance_group

record entry =
  in_scope :: scope
  sub_name :: string
  subsys :: component
  promotes_inputs :: "promote list"
  promotes_outputs :: "promote list"

datatype linesearch = BoundsEnforceLS

text \<open>
  \<open>om.NewtonSolver(solve_subsystems=.., atol=.., rtol=..)\<close>. An option that the setup does
  not pass keeps the default that the solver declares: \<open>err_on_non_converge\<close> is false
  then, and \<open>linesearch\<close> is \<open>None\<close> here until the setup assigns one.
\<close>

record NewtonSolver =
  solve_subsystems :: bool
  atol :: real
  rtol :: real
  linesearch :: "linesearch option"
  err_on_non_converge :: bool

definition NewtonSolver_new :: "bool \<Rightarrow> real \<Rightarrow> real \<Rightarrow> NewtonSolver" where
  "NewtonSolver_new ss a r =
     \<lparr> solve_subsystems = ss, atol = a, rtol = r, linesearch = None,
       err_on_non_converge = False \<rparr>"

record DirectSolver =
  assemble_jac :: bool

datatype call =
    build_mission_call string kwargs
  | mission_inputs_call string kwargs
  | mission_outputs_call string kwargs

text \<open>
  The model that a \<open>setup\<close> builds: the subsystems in the order of the \<open>add_subsystem\<close>
  calls, each with the group it was added to; the solvers of the two sub-groups; the calls
  made on the builders; the \<open>set_input_defaults\<close> calls; the \<open>promotes\<close> calls with
  source indices; the inputs required by the shooting scheme.
\<close>

record ode =
  subsystems :: "entry list"
  control_iter_nonlinear_solver :: "NewtonSolver option"
  control_iter_linear_solver :: "DirectSolver option"
  throttle_balance_nonlinear_solver :: "NewtonSolver option"
  throttle_balance_linear_solver :: "DirectSolver option"
  calls :: "call list"
  input_defaults :: "(string \<times> real list \<times> string option) list"
  promoted_src_indices :: "(string \<times> string \<times> nat list) list"
  sgm_required_inputs :: "(string \<times> string) list"

definition ode_empty :: ode where
  "ode_empty =
     \<lparr> subsystems = [],
       control_iter_nonlinear_solver = None, control_iter_linear_solver = None,
       throttle_balance_nonlinear_solver = None, throttle_balance_linear_solver = None,
       calls = [], input_defaults = [], promoted_src_indices = [],
       sgm_required_inputs = [] \<rparr>"

text \<open>
  A setup is written below as the list of its statements in the order of the source, each a
  function on the model under construction, applied one after the other by \<open>fold id\<close>.
\<close>

definition add_subsystem :: "scope \<Rightarrow> string \<Rightarrow> component \<Rightarrow> promote list \<Rightarrow> promote list
    \<Rightarrow> ode \<Rightarrow> ode" where
  "add_subsystem sc nm c pin pout st =
     st\<lparr> subsystems := subsystems st @
           [\<lparr> in_scope = sc, sub_name = nm, subsys = c,
              promotes_inputs = pin, promotes_outputs = pout \<rparr>] \<rparr>"

definition set_input_defaults_call :: "string \<Rightarrow> real list \<Rightarrow> string option \<Rightarrow> ode \<Rightarrow> ode" where
  "set_input_defaults_call nm v u st = st\<lparr> input_defaults := input_defaults st @ [(nm, v, u)] \<rparr>"

text \<open>\<open>np.ones(n) * c\<close>, \<open>np.zeros(n)\<close> and \<open>np.linspace(a, b, n, endpoint=True)\<close>.\<close>

definition np_full :: "nat \<Rightarrow> real \<Rightarrow> real list" where
  "np_full n c = replicate n c"

definition np_linspace :: "real \<Rightarrow> real \<Rightarrow> nat \<Rightarrow> real list" where
  "np_linspace a b n =
     (if n = 1 then [a] else map (\<lambda>i. a + real i * ((b - a) / real (n - 1))) [0..<n])"

text \<open>The options that \<open>BaseODE.initialize\<close> declares and the two setups read.\<close>

record BaseODE_options =
  num_nodes :: nat
  analysis_scheme :: AnalysisScheme
  aviary_options :: pyval
  subsystem_options :: "(string \<times> kwargs) list"
  core_subsystems :: "builder list"


definition log_calls :: "call list \<Rightarrow> ode \<Rightarrow> ode" where
  "log_calls cs st = st\<lparr> calls := calls st @ cs \<rparr>"

text \<open>
  The first two statements of the body of both subsystem loops: the shared dictionary
  \<open>kwargs\<close> is updated in place when \<open>subsystem_options\<close> has an entry of this name.
\<close>

definition update_kwargs :: "(string \<times> kwargs) list \<Rightarrow> builder \<Rightarrow> kwargs \<Rightarrow> kwargs" where
  "update_kwargs so s kw =
     (case map_of so (name s) of None \<Rightarrow> kw | Some overrides \<Rightarrow> dict_update kw overrides)"

subsection \<open>\<open>UnsteadySolvedODE\<close> (unsteady\_solved/unsteady\_solved\_ode.py)\<close>

record UnsteadySolvedODE_options = BaseODE_options +
  ground_roll :: bool
  clean :: bool
  include_param_comp :: bool
  input_speed_type :: SpeedType
  throttle_enforcement :: "throttle_policy option"
  initial_throttle_lapse :: real
  final_throttle_lapse :: real

definition throttle_balance :: "nat \<Rightarrow> throttle_policy option \<Rightarrow> balance" where
  "throttle_balance nn te =
     \<lparr> bal_name = ''Dynamic.Mission.THROTTLE'',
       bal_units = ''unitless'',
       bal_val = map (\<lambda>x. x * 0.5) (np_full nn 1),
       lhs_name = ''Dynamic.Mission.THRUST_TOTAL'',
       rhs_name = ''thrust_req'',
       eq_units = ''lbf'',
       normalize = False,
       lower = (if te = Some bounded then Some 0.0 else None),
       upper = (if te = Some bounded then Some 1.0 else None),
       res_ref = Some 1000000 \<rparr>"

definition alpha_balance :: "nat \<Rightarrow> balance" where
  "alpha_balance nn =
     \<lparr> bal_name = ''alpha'',
       bal_units = ''rad'',
       bal_val = np_full nn 0,
       lhs_name = ''dgam_dt_approx'',
       rhs_name = ''dgam_dt'',
       eq_units = ''rad/s'',
       normalize = False,
       lower = None,
       upper = None,
       res_ref = None \<rparr>"

definition thrust_req_balance :: "nat \<Rightarrow> balance" where
  "thrust_req_balance nn =
     \<lparr> bal_name = ''thrust_req'',
       bal_units = ''N'',
       bal_val = map (\<lambda>x. 100 * x) (np_full nn 1),
       lhs_name = ''dTAS_dt_approx'',
       rhs_name = ''dTAS_dt'',
       eq_units = ''m/s**2'',
       normalize = False,
       lower = None,
       upper = None,
       res_ref = None \<rparr>"

text \<open>Everything that \<open>setup\<close> does before the loop over \<open>core_subsystems\<close> (lines 107 to 192).\<close>

definition unsteady_before_loop :: "UnsteadySolvedODE_options \<Rightarrow> ode" where
  "unsteady_before_loop opts =
     (let nn = num_nodes opts in
      fold id
        [(if include_param_comp opts
          then add_subsystem top_level ''params'' ParamPort [Name ''*''] [Name ''*'']
          else id),
         add_subsystem top_level ''atmosphere'' (Atmosphere nn True)
          [Name ''Dynamic.Mission.ALTITUDE'']
          [Name ''Dynamic.Mission.DENSITY'', Name ''Dynamic.Mission.SPEED_OF_SOUND'',
           Name ''Dynamic.Mission.TEMPERATURE'', Name ''Dynamic.Mission.STATIC_PRESSURE'',
           Name ''viscosity_corr'', Name ''drhos_dh_corr'', Name ''dsos_dh_corr''],
         add_subsystem top_level ''flight_path_angle'' (GammaComp nn) [Name ''*''] [Name ''*''],
         add_subsystem top_level ''fc''
          (UnsteadySolvedFlightConditions nn (ground_roll opts) (input_speed_type opts))
          [Name ''*''] [Name ''*''],
         add_subsystem top_level ''control_iter_group'' Group [Name ''*''] [Name ''*''],
         add_subsystem top_level ''throttle_balance_group'' Group [Name ''*''] [Name ''*''],
         add_subsystem throttle_balance_group ''throttle_balance_comp''
          (BalanceComp [throttle_balance nn (throttle_enforcement opts)])
          [Name ''*''] [Name ''*''],
         (\<lambda>st. st\<lparr> throttle_balance_nonlinear_solver :=
                     Some ((NewtonSolver_new True (1 / 10 ^ 10) (1 / 10 ^ 10))
                             \<lparr> linesearch := Some BoundsEnforceLS,
                               err_on_non_converge := True \<rparr>),
                   throttle_balance_linear_solver := Some \<lparr> assemble_jac = True \<rparr> \<rparr>),
         add_subsystem top_level ''compute_phase_time''
          (ExecComp ''phase_time'' (Sub (V ''time'') (At ''time'' 0))
             [ExecVar ''time'' (Some ''s'') None (Some nn),
              ExecVar ''phase_time'' (Some ''s'') None (Some nn)])
          [Name ''time''] [Name ''phase_time''],
         add_subsystem top_level ''compute_throttle_residual''
          (ExecComp ''throttle_residual'' (Sub (V ''computed_throttle'') (V ''prescribed_throttle''))
             [ExecVar ''prescribed_throttle'' None
                (Some (np_linspace (initial_throttle_lapse opts) (final_throttle_lapse opts) nn)) None,
              ExecVar ''throttle_residual'' None None (Some nn),
              ExecVar ''computed_throttle'' None None (Some nn)])
          [Alias ''computed_throttle'' ''Dynamic.Mission.THROTTLE''] [Name ''throttle_residual'']]
        ode_empty)"

definition unsteady_kwargs :: "UnsteadySolvedODE_options \<Rightarrow> kwargs" where
  "unsteady_kwargs opts =
     (let kwargs = [(''num_nodes'', PInt (int (num_nodes opts))),
                    (''aviary_inputs'', aviary_options opts),
                    (''method'', PStr ''low_speed'')]
      in if clean opts then AList.update ''method'' (PStr ''cruise'') kwargs else kwargs)"

text \<open>
  One iteration of the loop (lines 201 to 227), on the dictionary \<open>kwargs\<close> and the model
  under construction.
\<close>

definition unsteady_step :: "(string \<times> kwargs) list \<Rightarrow> builder \<Rightarrow> kwargs \<times> ode \<Rightarrow> kwargs \<times> ode" where
  "unsteady_step so s = (\<lambda>(kw0, st0).
     let kw = update_kwargs so s kw0;
         st = log_calls [build_mission_call (name s) kw] st0
     in (kw,
         case build_mission s kw of
           None \<Rightarrow> st
         | Some sys \<Rightarrow>
             if isinstance s AerodynamicsBuilderBase then
               (let mi = mission_inputs s kw;
                    mi' = (if code_origin s = Some FLOPS \<and> Name ''angle_of_attack'' \<in> set mi
                           then remove1 (Name ''angle_of_attack'') mi
                                  @ [Alias ''angle_of_attack'' ''alpha'']
                           else mi)
                in add_subsystem control_iter_group (name s) (Subsystem sys)
                     mi' (mission_outputs s kw)
                     (log_calls [mission_inputs_call (name s) kw,
                                 mission_outputs_call (name s) kw] st))
             else if isinstance s PropulsionBuilderBase then
               add_subsystem throttle_balance_group (name s) (Subsystem sys)
                 (mission_inputs s kw) (mission_outputs s kw)
                 (log_calls [mission_inputs_call (name s) kw,
                             mission_outputs_call (name s) kw] st)
             else
               add_subsystem top_level (name s) (Subsystem sys)
                 (mission_inputs s kw) (mission_outputs s kw)
                 (log_calls [mission_inputs_call (name s) kw,
                             mission_outputs_call (name s) kw] st)))"

text \<open>
  Everything after the loop (lines 229 to 315). \<open>rho_sl\<close> is the constant
  \<open>RHO_SEA_LEVEL_ENGLISH\<close> of \<open>aviary.constants\<close>; \<open>ParamPort.set_default_vals\<close> sets
  defaults of the parameter port only and is left out.
\<close>

definition unsteady_after_loop :: "real \<Rightarrow> UnsteadySolvedODE_options \<Rightarrow> ode \<Rightarrow> ode" where
  "unsteady_after_loop rho_sl opts =
     (let nn = num_nodes opts; onn = np_full nn 1 in
      fold id
        [add_subsystem control_iter_group ''eom'' (UnsteadySolvedEOM nn (ground_roll opts))
          [Name ''*'', Alias ''Dynamic.Mission.THRUST_TOTAL'' ''thrust_req'',
           Name ''Dynamic.Mission.VELOCITY'']
          [Name ''*''],
         add_subsystem control_iter_group ''thrust_alpha_bal''
          (BalanceComp ((if \<not> ground_roll opts then [alpha_balance nn] else [])
                        @ [thrust_req_balance nn]))
          [Name ''*''] [Name ''*''],
         (\<lambda>st. st\<lparr> control_iter_nonlinear_solver :=
                     Some (NewtonSolver_new True (1 / 10 ^ 10) (1 / 10 ^ 10)),
          control_iter_linear_solver := Some \<lparr> assemble_jac = True \<rparr> \<rparr>),
         add_subsystem top_level ''mass_rate''
          (ExecComp ''dmass_dr'' (Mul (V ''fuelflow'') (V ''dt_dr''))
             [ExecVar ''fuelflow'' (Some ''lbm/s'') None (Some nn),
              ExecVar ''dt_dr'' (Some ''s/distance_units'') None (Some nn),
              ExecVar ''dmass_dr'' (Some ''lbm/distance_units'') None (Some nn)])
          [Alias ''fuelflow'' ''Dynamic.Mission.FUEL_FLOW_RATE_NEGATIVE_TOTAL'', Name ''dt_dr'']
          [Name ''dmass_dr''],
         add_subsystem top_level ''char_impedance_comp''
          (ExecComp ''char_impedance'' (Mul (V ''density'') (V ''speed_of_sound''))
             [ExecVar ''char_impedance'' (Some ''kg/(m**2*s)'') None (Some nn),
              ExecVar ''density'' (Some ''kg/m**3'') None (Some nn),
              ExecVar ''speed_of_sound'' (Some ''m/s'') None (Some nn)])
          [Alias ''density'' ''Dynamic.Mission.DENSITY'',
           Alias ''speed_of_sound'' ''Dynamic.Mission.SPEED_OF_SOUND'']
          [Name ''char_impedance''],
         set_input_defaults_call ''Dynamic.Mission.DENSITY''
          (map (\<lambda>x. rho_sl * x) onn) (Some ''slug/ft**3''),
         set_input_defaults_call ''Dynamic.Mission.SPEED_OF_SOUND''
          (map (\<lambda>x. 1116.4 * x) onn) (Some ''ft/s''),
         (if \<not> ground_roll opts
          then set_input_defaults_call ''Dynamic.Mission.FLIGHT_PATH_ANGLE''
                 (map (\<lambda>x. 0.0 * x) onn) (Some ''rad'')
          else id),
         set_input_defaults_call ''Dynamic.Mission.VELOCITY'' (map (\<lambda>x. 250 * x) onn) (Some ''kn''),
         set_input_defaults_call ''Dynamic.Mission.ALTITUDE'' (map (\<lambda>x. 10000 * x) onn) (Some ''ft''),
         set_input_defaults_call ''dh_dr'' (map (\<lambda>x. 0 * x) onn) (Some ''ft/distance_units''),
         set_input_defaults_call ''d2h_dr2'' (map (\<lambda>x. 0 * x) onn) (Some ''ft/distance_units**2'')])"

definition UnsteadySolvedODE_setup :: "real \<Rightarrow> UnsteadySolvedODE_options \<Rightarrow> ode" where
  "UnsteadySolvedODE_setup rho_sl opts =
     unsteady_after_loop rho_sl opts
       (snd (fold (unsteady_step (subsystem_options opts)) (core_subsystems opts)
               (unsteady_kwargs opts, unsteady_before_loop opts)))"


subsection \<open>\<open>GroundrollODE\<close> (groundroll\_ode.py)\<close>

record GroundrollODE_options = BaseODE_options +
  set_input_defaults :: bool

text \<open>
  Lines 41 to 58. \<open>add_atmosphere\<close> is a method of \<open>BaseODE\<close>, which is not among the
  sources: it is taken to add the atmosphere component under the name \<open>atmosphere\<close>.
\<close>

definition groundroll_before_loop :: "GroundrollODE_options \<Rightarrow> ode" where
  "groundroll_before_loop opts =
     (let nn = num_nodes opts in
      fold id
        [(if analysis_scheme opts = SHOOTING
          then (\<lambda>st. st\<lparr> sgm_required_inputs := [(''Dynamic.Mission.DISTANCE'', ''ft'')] \<rparr>)
          else id),
         add_subsystem top_level ''params'' ParamPort [Name ''*''] [Name ''*''],
         add_subsystem top_level ''atmosphere'' (Atmosphere nn False) [Name ''*''] [Name ''*''],
         add_subsystem top_level ''init_alpha''
          (ExecComp ''alpha'' (V ''i_wing'')
             [ExecVar ''i_wing'' (Some ''deg'') (Some [1.1]) None,
              ExecVar ''alpha'' (Some ''deg'') (Some (map (\<lambda>x. 1.1 * x) (np_full nn 1))) None])
          [Alias ''i_wing'' ''Aircraft.Wing.INCIDENCE'', Name ''alpha'']
          [Alias ''i_wing'' ''Aircraft.Wing.INCIDENCE'', Name ''alpha'']]
        ode_empty)"

definition groundroll_kwargs :: "GroundrollODE_options \<Rightarrow> kwargs" where
  "groundroll_kwargs opts =
     [(''num_nodes'', PInt (int (num_nodes opts))),
      (''aviary_inputs'', aviary_options opts),
      (''method'', PStr ''low_speed'')]"

text \<open>One iteration of the loop (lines 62 to 77).\<close>

definition groundroll_step :: "nat \<Rightarrow> (string \<times> kwargs) list \<Rightarrow> builder \<Rightarrow> kwargs \<times> ode
    \<Rightarrow> kwargs \<times> ode" where
  "groundroll_step nn so s = (\<lambda>(kw0, st0).
     let kw = update_kwargs so s kw0;
         st = log_calls [build_mission_call (name s) kw] st0;
         st1 = (case build_mission s kw of
                  None \<Rightarrow> st
                | Some sys \<Rightarrow>
                    add_subsystem top_level (name s) (Subsystem sys)
                      (mission_inputs s kw) (mission_outputs s kw)
                      (log_calls [mission_inputs_call (name s) kw,
                                  mission_outputs_call (name s) kw] st))
     in (kw,
         if type_is s AerodynamicsBuilderBase
         then st1\<lparr> promoted_src_indices :=
                     promoted_src_indices st1 @ [(name s, ''alpha'', replicate nn 0)] \<rparr>
         else st1))"

text \<open>Lines 79 to 141; \<open>ParamPort.set_default_vals\<close> is left out as above.\<close>

definition groundroll_after_loop :: "GroundrollODE_options \<Rightarrow> ode \<Rightarrow> ode" where
  "groundroll_after_loop opts =
     (let nn = num_nodes opts in
      fold id
        [add_subsystem top_level ''groundroll_eom'' (GroundrollEOM nn) [Name ''*''] [Name ''*''],
         add_subsystem top_level ''exec''
          (ExecComp ''over_a'' (Div (V ''velocity'') (V ''velocity_rate''))
             [ExecVar ''velocity_rate'' (Some ''kn/s'') (Some (np_full nn 1)) None,
              ExecVar ''velocity'' (Some ''kn'') (Some (np_full nn 1)) None,
              ExecVar ''over_a'' (Some ''s'') (Some (np_full nn 1)) None])
          [Name ''*''] [Name ''*''],
         add_subsystem top_level ''exec2''
          (ExecComp ''dt_dv'' (Div (Const 1) (V ''velocity_rate''))
             [ExecVar ''velocity_rate'' (Some ''kn/s'') (Some (np_full nn 1)) None,
              ExecVar ''dt_dv'' (Some ''s/kn'') (Some (np_full nn 1)) None])
          [Name ''*''] [Name ''*''],
         add_subsystem top_level ''exec3''
          (ExecComp ''dmass_dv'' (Mul (V ''mass_rate'') (V ''dt_dv''))
             [ExecVar ''mass_rate'' (Some ''lbm/s'') (Some (np_full nn 1)) None,
              ExecVar ''dt_dv'' (Some ''s/kn'') (Some (np_full nn 1)) None,
              ExecVar ''dmass_dv'' (Some ''lbm/kn'') (Some (np_full nn 1)) None])
          [Alias ''mass_rate'' ''Dynamic.Mission.FUEL_FLOW_RATE_NEGATIVE_TOTAL'', Name ''dt_dv'']
          [Name ''dmass_dv''],
         (if set_input_defaults opts
          then fold id
                 [set_input_defaults_call ''t_init_flaps'' [100] None,
                  set_input_defaults_call ''t_init_gear'' [100] None,
                  set_input_defaults_call ''aero_ramps.flap_factor:final_val'' [1] None,
                  set_input_defaults_call ''aero_ramps.gear_factor:final_val'' [1] None,
                  set_input_defaults_call ''aero_ramps.flap_factor:initial_val'' [1] None,
                  set_input_defaults_call ''aero_ramps.gear_factor:initial_val'' [1] None,
                  set_input_defaults_call ''t_curr'' (np_full nn 0) (Some ''s'')]
          else id),
         set_input_defaults_call ''Dynamic.Mission.FLIGHT_PATH_ANGLE'' (np_full nn 0) (Some ''deg''),
         set_input_defaults_call ''Dynamic.Mission.ALTITUDE'' (np_full nn 0) (Some ''ft''),
         set_input_defaults_call ''Dynamic.Mission.VELOCITY'' (np_full nn 0) (Some ''kn''),
         set_input_defaults_call ''Dynamic.Mission.VELOCITY_RATE'' (np_full nn 0) (Some ''kn/s''),
         set_input_defaults_call ''Aircraft.Wing.INCIDENCE'' [- 0.854237] (Some ''deg'')])"

definition GroundrollODE_setup :: "GroundrollODE_options \<Rightarrow> ode" where
  "GroundrollODE_setup opts =
     groundroll_after_loop opts
       (snd (fold (groundroll_step (num_nodes opts) (subsystem_options opts)) (core_subsystems opts)
               (groundroll_kwargs opts, groundroll_before_loop opts)))"

subsection \<open>What the assembled model contains\<close>

definition balances :: "ode \<Rightarrow> balance list" where
  "balances m = concat (map (\<lambda>e. case subsys e of BalanceComp bs \<Rightarrow> bs | _ \<Rightarrow> []) (subsystems m))"

definition balances_in :: "scope \<Rightarrow> ode \<Rightarrow> balance list" where
  "balances_in sc m =
     concat (map (\<lambda>e. case subsys e of BalanceComp bs \<Rightarrow> if in_scope e = sc then bs else [] | _ \<Rightarrow> [])
               (subsystems m))"

text \<open>The built subsystems with the group each was added to, in the order of their addition.\<close>

definition placements :: "ode \<Rightarrow> (scope \<times> string) list" where
  "placements m =
     concat (map (\<lambda>e. case subsys e of Subsystem sys \<Rightarrow> [(in_scope e, sub_name e)] | _ \<Rightarrow> [])
               (subsystems m))"

definition find_subsystem :: "ode \<Rightarrow> string \<Rightarrow> entry option" where
  "find_subsystem m nm = find (\<lambda>e. sub_name e = nm) (subsystems m)"

subsection \<open>Evaluating an \<open>ExecComp\<close>\<close>

text \<open>
  Arrays are lists; an operand of one element is broadcast against the other, and any
  other mismatch of shapes is an error (\<open>None\<close>), as is an index out of range.
\<close>

definition broadcast :: "(real \<Rightarrow> real \<Rightarrow> real) \<Rightarrow> real list \<Rightarrow> real list \<Rightarrow> real list option" where
  "broadcast f xs ys =
     (if length xs = length ys then Some (map2 f xs ys)
      else if length xs = 1 then Some (map (f (hd xs)) ys)
      else if length ys = 1 then Some (map (\<lambda>x. f x (hd ys)) xs)
      else None)"

fun eval_expr :: "(string \<Rightarrow> real list) \<Rightarrow> expr \<Rightarrow> real list option" where
  "eval_expr inputs (V x) = Some (inputs x)"
| "eval_expr inputs (At x i) = (if i < length (inputs x) then Some [inputs x ! i] else None)"
| "eval_expr inputs (Const c) = Some [c]"
| "eval_expr inputs (Sub a b) =
     (case (eval_expr inputs a, eval_expr inputs b) of
        (Some xs, Some ys) \<Rightarrow> broadcast (-) xs ys | _ \<Rightarrow> None)"
| "eval_expr inputs (Mul a b) =
     (case (eval_expr inputs a, eval_expr inputs b) of
        (Some xs, Some ys) \<Rightarrow> broadcast (*) xs ys | _ \<Rightarrow> None)"
| "eval_expr inputs (Div a b) =
     (case (eval_expr inputs a, eval_expr inputs b) of
        (Some xs, Some ys) \<Rightarrow> broadcast (/) xs ys | _ \<Rightarrow> None)"

fun var_shape :: "exec_var list \<Rightarrow> string \<Rightarrow> nat" where
  "var_shape [] x = 1"
| "var_shape (ExecVar y u v sh # vs) x =
     (if y = x
      then (case v of Some val \<Rightarrow> length val
                    | None \<Rightarrow> (case sh of Some n \<Rightarrow> n | None \<Rightarrow> 1))
      else var_shape vs x)"

fun exec_compute :: "component \<Rightarrow> (string \<Rightarrow> real list) \<Rightarrow> real list option" where
  "exec_compute (ExecComp out rhs vars) inputs =
     (case eval_expr inputs rhs of
        None \<Rightarrow> None
      | Some v \<Rightarrow>
          if length v = var_shape vars out then Some v
          else if length v = 1 then Some (replicate (var_shape vars out) (hd v))
          else None)"
| "exec_compute _ inputs = None"

subsection \<open>Running the solvers of the two groups\<close>

text \<open>
  Modelled from the spec: the Newton iteration and its line search belong to the solver
  library, which is not among the sources. Following section 4.4 of the spec, an iteration
  adds a Newton step to the controls, and the bounds-enforcing line search then puts every
  entry that left the bounds of its balance back on the bound. Values are reals here, not
  floating point numbers.
\<close>

definition clip :: "real option \<Rightarrow> real option \<Rightarrow> real \<Rightarrow> real" where
  "clip lo hi x =
     (let y = (case lo of None \<Rightarrow> x | Some l \<Rightarrow> max l x)
      in case hi of None \<Rightarrow> y | Some h \<Rightarrow> min h y)"

definition newton_step :: "NewtonSolver \<Rightarrow> balance \<Rightarrow> real list \<Rightarrow> real list \<Rightarrow> real list" where
  "newton_step sv b du u =
     (let u' = map2 (+) u du
      in case linesearch sv of
           None \<Rightarrow> u'
         | Some BoundsEnforceLS \<Rightarrow> map (clip (lower b) (upper b)) u')"

definition newton_iterate :: "NewtonSolver \<Rightarrow> balance \<Rightarrow> real list list \<Rightarrow> real list" where
  "newton_iterate sv b steps = fold (newton_step sv b) steps (bal_val b)"

text \<open>
  A solve ends converged, at the iteration limit, or on a singular linear system. What
  follows is the meaning of the options that the setups give the solvers: at the iteration
  limit a Newton solver raises under \<open>err_on_non_converge\<close> and otherwise hands on the values
  it has reached, and the direct linear solver raises on a singular system. A group without
  a Newton solver of its own is run once.
\<close>

datatype solve_end = Converged | IterationLimit | SingularJacobian

definition run_newton :: "NewtonSolver option \<Rightarrow> solve_end \<Rightarrow> real list \<Rightarrow> error + real list" where
  "run_newton solver ending u =
     (case solver of
        None \<Rightarrow> Inr u
      | Some sv \<Rightarrow>
          (case ending of
             Converged \<Rightarrow> Inr u
           | IterationLimit \<Rightarrow> if err_on_non_converge sv then Inl AnalysisError else Inr u
           | SingularJacobian \<Rightarrow> Inl RuntimeError))"

text \<open>
  One evaluation of the phase: the control iteration group is solved, then the throttle
  balance group, in the order in which \<open>setup\<close> added them; an error of either ends the
  evaluation.
\<close>

definition evaluate_phase :: "ode \<Rightarrow> solve_end \<times> real list \<Rightarrow> solve_end \<times> real list
    \<Rightarrow> error + (real list \<times> real list)" where
  "evaluate_phase m control throttle =
     (case run_newton (control_iter_nonlinear_solver m) (fst control) (snd control) of
        Inl err \<Rightarrow> Inl err
      | Inr c \<Rightarrow>
          (case run_newton (throttle_balance_nonlinear_solver m) (fst throttle) (snd throttle) of
             Inl err \<Rightarrow> Inl err
           | Inr t \<Rightarrow> Inr (c, t)))"

text \<open>
  The throttle controls after the given Newton steps of the throttle balance group, from
  the initial value of its balance.
\<close>

definition throttle_iterate :: "ode \<Rightarrow> real list list \<Rightarrow> real list option" where
  "throttle_iterate m steps =
     (case (throttle_balance_nonlinear_solver m, balances_in throttle_balance_group m) of
        (Some sv, [b]) \<Rightarrow> Some (newton_iterate sv b steps)
      | _ \<Rightarrow> None)"

subsection \<open>The routing and the keyword arguments, as the description of the assembly states them\<close>

text \<open>The group of a built subsystem, by the type of its builder.\<close>

definition route :: "builder \<Rightarrow> scope" where
  "route s =
     (if isinstance s AerodynamicsBuilderBase then control_iter_group
      else if isinstance s PropulsionBuilderBase then throttle_balance_group
      else top_level)"

text \<open>
  The builders of the list whose \<open>build_mission\<close> returns a system, each called with the
  keyword arguments accumulated up to it.
\<close>

fun built_subsystems :: "(string \<times> kwargs) list \<Rightarrow> builder list \<Rightarrow> kwargs \<Rightarrow> builder list" where
  "built_subsystems so [] kw = []"
| "built_subsystems so (s # ss) kw =
     (if build_mission s (update_kwargs so s kw) = None then [] else [s])
       @ built_subsystems so ss (update_kwargs so s kw)"

fun call_kwargs :: "call \<Rightarrow> kwargs" where
  "call_kwargs (build_mission_call n kw) = kw"
| "call_kwargs (mission_inputs_call n kw) = kw"
| "call_kwargs (mission_outputs_call n kw) = kw"

fun call_name :: "call \<Rightarrow> string" where
  "call_name (build_mission_call n kw) = n"
| "call_name (mission_inputs_call n kw) = n"
| "call_name (mission_outputs_call n kw) = n"

definition has_key :: "string \<Rightarrow> call \<Rightarrow> bool" where
  "has_key k c = (k \<in> fst ` set (call_kwargs c))"

fun is_build_mission_call :: "call \<Rightarrow> bool" where
  "is_build_mission_call (build_mission_call n kw) = True"
| "is_build_mission_call _ = False"

text \<open>
  The calls that a loop over the builders makes, from the keyword arguments it starts with:
  for each builder \<open>build_mission\<close>, and for one that is built \<open>mission_inputs\<close> and
  \<open>mission_outputs\<close>, all three with the dictionary as updated so far.
\<close>

fun loop_calls :: "(string \<times> kwargs) list \<Rightarrow> builder list \<Rightarrow> kwargs \<Rightarrow> call list" where
  "loop_calls so [] kw = []"
| "loop_calls so (s # ss) kw =
     build_mission_call (name s) (update_kwargs so s kw)
       # (if build_mission s (update_kwargs so s kw) = None then []
          else [mission_inputs_call (name s) (update_kwargs so s kw),
                mission_outputs_call (name s) (update_kwargs so s kw)])
       @ loop_calls so ss (update_kwargs so s kw)"

text \<open>The output that the \<open>ExecComp\<close> added under a name computes from its inputs.\<close>

definition compute_subsystem :: "ode \<Rightarrow> string \<Rightarrow> (string \<Rightarrow> real list) \<Rightarrow> real list option" where
  "compute_subsystem m nm inputs =
     (case find_subsystem m nm of None \<Rightarrow> None | Some e \<Rightarrow> exec_compute (subsys e) inputs)"

subsection \<open>Example inputs\<close>

definition example_aero :: builder where
  "example_aero =
     \<lparr> name = ''aerodynamics'',
       mro = [OtherClass ''CoreAerodynamicsBuilder'', AerodynamicsBuilderBase],
       code_origin = Some FLOPS,
       build_mission = (\<lambda>kw. Some (System ''aerodynamics'')),
       mission_inputs = (\<lambda>kw. [Name ''angle_of_attack'', Name ''mach'']),
       mission_outputs = (\<lambda>kw. [Name ''drag'']) \<rparr>"

definition example_prop :: builder where
  "example_prop =
     \<lparr> name = ''propulsion'',
       mro = [OtherClass ''CorePropulsionBuilder'', PropulsionBuilderBase],
       code_origin = None,
       build_mission = (\<lambda>kw. Some (System ''propulsion'')),
       mission_inputs = (\<lambda>kw. [Name ''throttle'']),
       mission_outputs = (\<lambda>kw. [Name ''thrust'']) \<rparr>"

definition example_battery :: builder where
  "example_battery =
     \<lparr> name = ''battery'',
       mro = [OtherClass ''BatteryBuilder''],
       code_origin = None,
       build_mission = (\<lambda>kw. Some (System ''battery'')),
       mission_inputs = (\<lambda>kw. [Name ''current'']),
       mission_outputs = (\<lambda>kw. [Name ''voltage'']) \<rparr>"

definition example_unsteady_opts :: UnsteadySolvedODE_options where
  "example_unsteady_opts =
     \<lparr> num_nodes = 3,
       analysis_scheme = COLLOCATION,
       aviary_options = PObj ''aviary_options'',
       subsystem_options = [(''aerodynamics'', [(''solve_alpha'', PBool True)])],
       core_subsystems = [example_aero, example_prop, example_battery],
       ground_roll = False,
       clean = False,
       include_param_comp = True,
       input_speed_type = TAS,
       throttle_enforcement = None,
       initial_throttle_lapse = 0,
       final_throttle_lapse = 0 \<rparr>"

definition example_groundroll_opts :: GroundrollODE_options where
  "example_groundroll_opts =
     \<lparr> num_nodes = 3,
       analysis_scheme = COLLOCATION,
       aviary_options = PObj ''aviary_options'',
       subsystem_options = [(''aerodynamics'', [(''solve_alpha'', PBool True)])],
       core_subsystems = [example_aero, example_prop, example_battery],
       set_input_defaults = True \<rparr>"

definition example_env :: "int \<Rightarrow> env" where
  "example_env v =
     \<lparr> convert_units = (\<lambda>x from to. if from = to then Some x else None),
       default_prop_units = (\<lambda>k. ''unitless''),
       verbosity = Inr v \<rparr>"


section \<open>Properties of the assembled phases\<close>

subsection \<open>The balances of \<open>UnsteadySolvedODE\<close>\<close>

lemma balances_add_subsystem:
  "balances (add_subsystem sc nm c pin pout st) =
     balances st @ (case c of BalanceComp bs \<Rightarrow> bs | _ \<Rightarrow> [])"
  by (simp add: balances_def add_subsystem_def)

lemma balances_in_add_subsystem:
  "balances_in g (add_subsystem sc nm c pin pout st) =
     balances_in g st @ (case c of BalanceComp bs \<Rightarrow> if sc = g then bs else [] | _ \<Rightarrow> [])"
  by (simp add: balances_in_def add_subsystem_def split: component.split)

lemma subsystems_log_calls: "subsystems (log_calls cs st) = subsystems st"
  by (simp add: log_calls_def)

lemma subsystems_set_input_defaults_call:
  "subsystems (set_input_defaults_call nm v u st) = subsystems st"
  by (simp add: set_input_defaults_call_def)

lemma balances_cong: "subsystems a = subsystems b \<Longrightarrow> balances a = balances b"
  by (simp add: balances_def)

lemma balances_in_cong: "subsystems a = subsystems b \<Longrightarrow> balances_in g a = balances_in g b"
  by (simp add: balances_in_def)

lemma balances_unsteady_step:
  "balances (snd (unsteady_step so s p)) = balances (snd p)"
  by (cases p) (simp add: unsteady_step_def Let_def balances_add_subsystem
      balances_cong [OF subsystems_log_calls] split: option.split)

lemma balances_in_unsteady_step:
  "balances_in g (snd (unsteady_step so s p)) = balances_in g (snd p)"
  by (cases p) (simp add: unsteady_step_def Let_def balances_in_add_subsystem
      balances_in_cong [OF subsystems_log_calls] split: option.split)

lemma balances_unsteady_loop:
  "balances (snd (fold (unsteady_step so) ss p)) = balances (snd p)"
  by (induction ss arbitrary: p) (simp_all add: balances_unsteady_step)

lemma balances_in_unsteady_loop:
  "balances_in g (snd (fold (unsteady_step so) ss p)) = balances_in g (snd p)"
  by (induction ss arbitrary: p) (simp_all add: balances_in_unsteady_step)

lemma balances_unsteady_before_loop:
  "balances (unsteady_before_loop opts) =
     [throttle_balance (num_nodes opts) (throttle_enforcement opts)]"
  by (simp add: unsteady_before_loop_def Let_def balances_def add_subsystem_def ode_empty_def)

lemma balances_unsteady_after_loop:
  "balances (unsteady_after_loop rho opts st) =
     balances st @ (if \<not> ground_roll opts then [alpha_balance (num_nodes opts)] else [])
       @ [thrust_req_balance (num_nodes opts)]"
  by (simp add: unsteady_after_loop_def Let_def balances_def add_subsystem_def
        set_input_defaults_call_def)

lemma balances_UnsteadySolvedODE_setup:
  "balances (UnsteadySolvedODE_setup rho opts) =
     throttle_balance (num_nodes opts) (throttle_enforcement opts)
       # (if \<not> ground_roll opts then [alpha_balance (num_nodes opts)] else [])
       @ [thrust_req_balance (num_nodes opts)]"
  by (simp add: UnsteadySolvedODE_setup_def balances_unsteady_after_loop
        balances_unsteady_loop balances_unsteady_before_loop)


lemma balances_in_throttle_setup:
  "balances_in throttle_balance_group (UnsteadySolvedODE_setup rho opts) =
     [throttle_balance (num_nodes opts) (throttle_enforcement opts)]"
proof -
  have a: "balances_in throttle_balance_group (unsteady_before_loop opts) =
      [throttle_balance (num_nodes opts) (throttle_enforcement opts)]"
    by (simp add: unsteady_before_loop_def Let_def balances_in_def add_subsystem_def ode_empty_def)
  have b: "balances_in throttle_balance_group (unsteady_after_loop rho opts st) =
      balances_in throttle_balance_group st" for st
    by (simp add: unsteady_after_loop_def Let_def balances_in_def add_subsystem_def
        set_input_defaults_call_def)
  show ?thesis
    by (simp add: UnsteadySolvedODE_setup_def a b balances_in_unsteady_loop)
qed

text \<open>
  Claim C1, as amended. Under every throttle enforcement policy, the disabled one (\<open>None\<close>)
  included, the setup adds the throttle balance to the throttle balance group: the throttle
  is solved so that \<open>Dynamic.Mission.THRUST_TOTAL\<close> equals \<open>thrust_req\<close>. Under the disabled
  policy that balance has neither a lower nor an upper bound.
\<close>

theorem throttle_balance_added_under_every_policy:
  "balances_in throttle_balance_group (UnsteadySolvedODE_setup rho opts) =
     [throttle_balance (num_nodes opts) (throttle_enforcement opts)]
   \<and> bal_name (throttle_balance nn None) = ''Dynamic.Mission.THROTTLE''
   \<and> lhs_name (throttle_balance nn None) = ''Dynamic.Mission.THRUST_TOTAL''
   \<and> rhs_name (throttle_balance nn None) = ''thrust_req''
   \<and> lower (throttle_balance nn None) = None
   \<and> upper (throttle_balance nn None) = None"
  by (simp add: balances_in_throttle_setup throttle_balance_def)

text \<open>
  Claim C1, the amended statement at the example options with the policy \<open>bounded\<close>.
\<close>

theorem throttle_balance_added_under_every_policy_witness:
  "map bal_name (balances_in throttle_balance_group
      (UnsteadySolvedODE_setup 0 (example_unsteady_opts\<lparr> throttle_enforcement := Some bounded \<rparr>)))
     = [''Dynamic.Mission.THROTTLE'']"
  using throttle_balance_added_under_every_policy
    [of 0 "example_unsteady_opts\<lparr> throttle_enforcement := Some bounded \<rparr>" 0]
  by (simp add: throttle_balance_def)

text \<open>
  Claim C1 as stated fails: with the policy disabled the throttle balance group of the example
  phase still holds the throttle against thrust balance.
\<close>

theorem disabled_policy_still_adds_throttle_balance:
  "throttle_enforcement example_unsteady_opts = None
   \<and> map bal_name
        (balances_in throttle_balance_group (UnsteadySolvedODE_setup 0 example_unsteady_opts))
     = [''Dynamic.Mission.THROTTLE'']
   \<and> map lhs_name
        (balances_in throttle_balance_group (UnsteadySolvedODE_setup 0 example_unsteady_opts))
     = [''Dynamic.Mission.THRUST_TOTAL'']
   \<and> map rhs_name
        (balances_in throttle_balance_group (UnsteadySolvedODE_setup 0 example_unsteady_opts))
     = [''thrust_req'']"
  by (simp add: balances_in_throttle_setup throttle_balance_def example_unsteady_opts_def)

text \<open>
  Claim C2. The angle of attack balance is among the balances of the phase exactly when the
  phase is not a ground roll phase, and with the other options (the subsystems among them)
  unchanged, the ground roll phase has one balance fewer than the other phase.
\<close>

theorem alpha_balance_iff_not_ground_roll:
  "(''alpha'' \<in> set (map bal_name (balances (UnsteadySolvedODE_setup rho opts)))) = (\<not> ground_roll opts)
   \<and> length (balances (UnsteadySolvedODE_setup rho (opts\<lparr> ground_roll := True \<rparr>))) + 1
       = length (balances (UnsteadySolvedODE_setup rho (opts\<lparr> ground_roll := False \<rparr>)))"
  by (cases "ground_roll opts")
     (simp_all add: balances_UnsteadySolvedODE_setup throttle_balance_def alpha_balance_def
        thrust_req_balance_def)

text \<open>
  Claim C2 at the example options: two balances on the ground, three otherwise.
\<close>

theorem alpha_balance_iff_not_ground_roll_witness:
  "length (balances (UnsteadySolvedODE_setup 0 (example_unsteady_opts\<lparr> ground_roll := True \<rparr>))) = 2
   \<and> length (balances (UnsteadySolvedODE_setup 0 (example_unsteady_opts\<lparr> ground_roll := False \<rparr>))) = 3"
  using alpha_balance_iff_not_ground_roll [of 0 example_unsteady_opts]
  by (simp add: balances_UnsteadySolvedODE_setup)

text \<open>
  Claim C5. The initial values of the controls are 0.5 for the throttle at each of the
  \<open>num_nodes\<close> nodes, 0 for the angle of attack at each node when its balance is present, and
  100 for the required thrust at each node, in the force unit \<open>N\<close> chosen for it.
\<close>

theorem initial_guesses_of_controls:
  "map (\<lambda>b. (bal_name b, bal_units b, bal_val b)) (balances (UnsteadySolvedODE_setup rho opts)) =
     (''Dynamic.Mission.THROTTLE'', ''unitless'', replicate (num_nodes opts) (1 / 2))
       # (if ground_roll opts then [] else [(''alpha'', ''rad'', replicate (num_nodes opts) 0)])
       @ [(''thrust_req'', ''N'', replicate (num_nodes opts) 100)]"
  by (simp add: balances_UnsteadySolvedODE_setup throttle_balance_def alpha_balance_def
      thrust_req_balance_def np_full_def)

text \<open>
  Claim C5 at the example options, with three nodes.
\<close>

theorem initial_guesses_of_controls_witness:
  "map (\<lambda>b. (bal_name b, bal_units b, bal_val b))
       (balances (UnsteadySolvedODE_setup 0 example_unsteady_opts)) =
     [(''Dynamic.Mission.THROTTLE'', ''unitless'', [1 / 2, 1 / 2, 1 / 2]),
      (''alpha'', ''rad'', [0, 0, 0]),
      (''thrust_req'', ''N'', [100, 100, 100])]"
  using initial_guesses_of_controls [of 0 example_unsteady_opts]
  by (simp add: example_unsteady_opts_def numeral_3_eq_3)


subsection \<open>The solvers of \<open>UnsteadySolvedODE\<close>\<close>

lemma solvers_unsteady_step:
  "throttle_balance_nonlinear_solver (snd (unsteady_step so s p)) =
     throttle_balance_nonlinear_solver (snd p)"
  "control_iter_nonlinear_solver (snd (unsteady_step so s p)) =
     control_iter_nonlinear_solver (snd p)"
  by (cases p; simp add: unsteady_step_def Let_def add_subsystem_def log_calls_def
      split: option.split)+

lemma solvers_unsteady_loop:
  "throttle_balance_nonlinear_solver (snd (fold (unsteady_step so) ss p)) =
     throttle_balance_nonlinear_solver (snd p)"
  "control_iter_nonlinear_solver (snd (fold (unsteady_step so) ss p)) =
     control_iter_nonlinear_solver (snd p)"
  by (induction ss arbitrary: p) (simp_all add: solvers_unsteady_step)

lemma throttle_solver_setup:
  "throttle_balance_nonlinear_solver (UnsteadySolvedODE_setup rho opts) =
     Some ((NewtonSolver_new True (1 / 10 ^ 10) (1 / 10 ^ 10))
             \<lparr> linesearch := Some BoundsEnforceLS, err_on_non_converge := True \<rparr>)"
proof -
  have a: "throttle_balance_nonlinear_solver (unsteady_after_loop rho opts st) =
      throttle_balance_nonlinear_solver st" for st
    by (simp add: unsteady_after_loop_def Let_def add_subsystem_def set_input_defaults_call_def)
  have b: "throttle_balance_nonlinear_solver (unsteady_before_loop opts) =
      Some ((NewtonSolver_new True (1 / 10 ^ 10) (1 / 10 ^ 10))
              \<lparr> linesearch := Some BoundsEnforceLS, err_on_non_converge := True \<rparr>)"
    by (simp add: unsteady_before_loop_def Let_def add_subsystem_def)
  show ?thesis
    by (simp only: UnsteadySolvedODE_setup_def a solvers_unsteady_loop snd_conv b)
qed

lemma control_solver_setup:
  "control_iter_nonlinear_solver (UnsteadySolvedODE_setup rho opts) =
     Some (NewtonSolver_new True (1 / 10 ^ 10) (1 / 10 ^ 10))"
  by (simp add: UnsteadySolvedODE_setup_def unsteady_after_loop_def Let_def add_subsystem_def
      set_input_defaults_call_def)

lemma clip_unit_interval: "0 \<le> clip (Some 0) (Some 1) x \<and> clip (Some 0) (Some 1) x \<le> 1"
  by (simp add: clip_def Let_def)

lemma newton_iterate_in_bounds:
  assumes "linesearch sv = Some BoundsEnforceLS" "lower b = Some 0" "upper b = Some 1"
    and "\<forall>x\<in>set u. 0 \<le> x \<and> x \<le> 1"
  shows "\<forall>x\<in>set (fold (newton_step sv b) steps u). 0 \<le> x \<and> x \<le> 1"
  using assms(4)
proof (induction steps arbitrary: u)
  case Nil
  then show ?case by simp
next
  case (Cons du steps)
  have "\<forall>x\<in>set (newton_step sv b du u). 0 \<le> x \<and> x \<le> 1"
    using assms(1-3) by (simp add: newton_step_def Let_def clip_unit_interval)
  then show ?case using Cons.IH by simp
qed

lemma newton_iterate_length:
  assumes "\<forall>du\<in>set steps. length du = length u"
  shows "length (fold (newton_step sv b) steps u) = length u"
  using assms
proof (induction steps arbitrary: u)
  case Nil
  then show ?case by simp
next
  case (Cons du steps)
  have "length (newton_step sv b du u) = length u"
    using Cons.prems by (simp add: newton_step_def Let_def split: option.split linesearch.split)
  then show ?case using Cons by simp
qed

lemma newton_step_unbounded:
  "lower b = None \<Longrightarrow> upper b = None \<Longrightarrow> newton_step sv b du u = map2 (+) u du"
  by (simp add: newton_step_def Let_def clip_def split: option.split linesearch.split)

text \<open>
  Claim C4. Under the policy \<open>bounded\<close> the throttle balance has the lower bound 0 and the
  upper bound 1 and its solver the bounds-enforcing line search, so that after any sequence
  of Newton steps, however large, the throttle at every node lies between 0 and 1. Under
  every other policy the throttle balance has no bound, and a step is applied as it is.
\<close>

theorem bounded_throttle_stays_in_unit_interval:
  "(throttle_enforcement opts = Some bounded \<longrightarrow>
      map (\<lambda>b. (lower b, upper b))
        (balances_in throttle_balance_group (UnsteadySolvedODE_setup rho opts)) = [(Some 0, Some 1)]
      \<and> map_option linesearch (throttle_balance_nonlinear_solver (UnsteadySolvedODE_setup rho opts))
          = Some (Some BoundsEnforceLS)
      \<and> (\<exists>u. throttle_iterate (UnsteadySolvedODE_setup rho opts) steps = Some u
            \<and> (\<forall>x\<in>set u. 0 \<le> x \<and> x \<le> 1)
            \<and> ((\<forall>du\<in>set steps. length du = num_nodes opts) \<longrightarrow> length u = num_nodes opts)))
   \<and> (throttle_enforcement opts \<noteq> Some bounded \<longrightarrow>
      map (\<lambda>b. (lower b, upper b))
        (balances_in throttle_balance_group (UnsteadySolvedODE_setup rho opts)) = [(None, None)]
      \<and> throttle_iterate (UnsteadySolvedODE_setup rho opts) [du] =
          Some (map2 (+) (replicate (num_nodes opts) (1 / 2)) du))"
proof (intro conjI impI)
  let ?m = "UnsteadySolvedODE_setup rho opts"
  let ?sv = "(NewtonSolver_new True (1 / 10 ^ 10) (1 / 10 ^ 10))
               \<lparr> linesearch := Some BoundsEnforceLS, err_on_non_converge := True \<rparr>"
  let ?b = "throttle_balance (num_nodes opts) (throttle_enforcement opts)"
  have it: "throttle_iterate ?m st = Some (newton_iterate ?sv ?b st)" for st
    by (simp add: throttle_iterate_def throttle_solver_setup balances_in_throttle_setup)
  have val: "bal_val ?b = replicate (num_nodes opts) (1 / 2)"
    by (simp add: throttle_balance_def np_full_def)
  {
    assume bd: "throttle_enforcement opts = Some bounded"
    show "map (\<lambda>b. (lower b, upper b)) (balances_in throttle_balance_group ?m) = [(Some 0, Some 1)]"
      using bd by (simp add: balances_in_throttle_setup throttle_balance_def)
    show "map_option linesearch (throttle_balance_nonlinear_solver ?m) = Some (Some BoundsEnforceLS)"
      by (simp add: throttle_solver_setup)
    have lo: "lower ?b = Some 0" and up: "upper ?b = Some 1"
      using bd by (simp_all add: throttle_balance_def)
    have ls: "linesearch ?sv = Some BoundsEnforceLS" by simp
    have init: "\<forall>x\<in>set (bal_val ?b). 0 \<le> x \<and> x \<le> 1"
      by (simp add: val)
    have rng: "\<forall>x\<in>set (newton_iterate ?sv ?b steps). 0 \<le> x \<and> x \<le> 1"
      unfolding newton_iterate_def by (rule newton_iterate_in_bounds [OF ls lo up init])
    have len: "(\<forall>du\<in>set steps. length du = num_nodes opts) \<longrightarrow>
        length (newton_iterate ?sv ?b steps) = num_nodes opts"
      unfolding newton_iterate_def
      using newton_iterate_length [of steps "bal_val ?b" ?sv ?b] by (simp add: val)
    show "\<exists>u. throttle_iterate ?m steps = Some u \<and> (\<forall>x\<in>set u. 0 \<le> x \<and> x \<le> 1)
        \<and> ((\<forall>du\<in>set steps. length du = num_nodes opts) \<longrightarrow> length u = num_nodes opts)"
      using it rng len by blast
  }
  {
    assume nb: "throttle_enforcement opts \<noteq> Some bounded"
    show "map (\<lambda>b. (lower b, upper b)) (balances_in throttle_balance_group ?m) = [(None, None)]"
      using nb by (simp add: balances_in_throttle_setup throttle_balance_def)
    have lo: "lower ?b = None" and up: "upper ?b = None"
      using nb by (simp_all add: throttle_balance_def)
    show "throttle_iterate ?m [du] = Some (map2 (+) (replicate (num_nodes opts) (1 / 2)) du)"
      by (simp add: it newton_iterate_def newton_step_unbounded [OF lo up] val)
  }
qed

text \<open>
  Claim C4 at the example options: a step that leaves the unit interval at two nodes is put
  back on the bounds under \<open>bounded\<close>, and applied unchanged under the disabled policy.
\<close>

theorem bounded_throttle_stays_in_unit_interval_witness:
  "throttle_iterate
     (UnsteadySolvedODE_setup 0 (example_unsteady_opts\<lparr> throttle_enforcement := Some bounded \<rparr>))
     [[1, - 2, 1 / 4]] = Some [1, 0, 3 / 4]
   \<and> throttle_iterate (UnsteadySolvedODE_setup 0 example_unsteady_opts) [[1, - 2, 1 / 4]]
       = Some [3 / 2, - (3 / 2), 3 / 4]"
proof -
  let ?ob = "example_unsteady_opts\<lparr> throttle_enforcement := Some bounded \<rparr>"
  have bd: "throttle_enforcement ?ob = Some bounded" by simp
  have nb: "throttle_enforcement example_unsteady_opts \<noteq> Some bounded"
    by (simp add: example_unsteady_opts_def)
  have n: "num_nodes example_unsteady_opts = 3" by (simp add: example_unsteady_opts_def)
  have "throttle_iterate (UnsteadySolvedODE_setup 0 example_unsteady_opts) [[1, - 2, 1 / 4]] =
      Some (map2 (+) (replicate (num_nodes example_unsteady_opts) (1 / 2)) [1, - 2, 1 / 4])"
    using bounded_throttle_stays_in_unit_interval [of example_unsteady_opts 0 "[]" "[1, - 2, 1 / 4]"] nb
    by blast
  then have free: "throttle_iterate (UnsteadySolvedODE_setup 0 example_unsteady_opts) [[1, - 2, 1 / 4]]
      = Some [3 / 2, - (3 / 2), 3 / 4]"
    by (simp add: n numeral_3_eq_3)
  have "throttle_iterate (UnsteadySolvedODE_setup 0 ?ob) [[1, - 2, 1 / 4]] = Some [1, 0, 3 / 4]"
    by (simp add: throttle_iterate_def throttle_solver_setup balances_in_throttle_setup
        newton_iterate_def newton_step_def NewtonSolver_new_def throttle_balance_def np_full_def
        clip_def Let_def n numeral_3_eq_3)
  with free show ?thesis by simp
qed

text \<open>
  Claim C6, as amended. A phase evaluation fails with an error handed to the caller when the
  linear system of either solve is singular, and when the throttle balance solve reaches
  its iteration limit; in every other case it returns the controls reached.
\<close>

theorem divergence_raises_except_control_iteration_limit:
  "evaluate_phase (UnsteadySolvedODE_setup rho opts) (ce, cu) (te, tu) =
     (if ce = SingularJacobian then Inl RuntimeError
      else if te = IterationLimit then Inl AnalysisError
      else if te = SingularJacobian then Inl RuntimeError
      else Inr (cu, tu))"
  by (cases ce; cases te)
     (simp_all add: evaluate_phase_def run_newton_def throttle_solver_setup control_solver_setup
        NewtonSolver_new_def)

text \<open>
  Claim C6, the amended statement at the example phase: an iteration limit of the throttle
  balance solve and a singular system of the control iteration solve are both errors.
\<close>

theorem divergence_raises_except_control_iteration_limit_witness:
  "evaluate_phase (UnsteadySolvedODE_setup 0 example_unsteady_opts)
     (Converged, [0, 0, 0]) (IterationLimit, [2, 2, 2]) = Inl AnalysisError
   \<and> evaluate_phase (UnsteadySolvedODE_setup 0 example_unsteady_opts)
     (SingularJacobian, [0, 0, 0]) (Converged, [1 / 2, 1 / 2, 1 / 2]) = Inl RuntimeError"
  using divergence_raises_except_control_iteration_limit
    [of 0 example_unsteady_opts Converged "[0, 0, 0]" IterationLimit "[2, 2, 2]"]
    divergence_raises_except_control_iteration_limit
    [of 0 example_unsteady_opts SingularJacobian "[0, 0, 0]" Converged "[1 / 2, 1 / 2, 1 / 2]"]
  by simp

text \<open>
  Claim C6 as stated fails for the control iteration solve: when it reaches its iteration
  limit the evaluation of the example phase returns the unconverged controls, no error.
\<close>

theorem control_iteration_limit_is_not_an_error:
  "evaluate_phase (UnsteadySolvedODE_setup 0 example_unsteady_opts)
     (IterationLimit, [7, 7, 7]) (Converged, [1 / 2, 1 / 2, 1 / 2])
   = Inr ([7, 7, 7], [1 / 2, 1 / 2, 1 / 2])"
  by (simp add: evaluate_phase_def run_newton_def throttle_solver_setup control_solver_setup
      NewtonSolver_new_def)


subsection \<open>The subsystem loops\<close>

lemma keys_dict_update: "fst ` set (dict_update d other) = fst ` set d \<union> fst ` set other"
proof -
  have aux: "{k} \<union> A \<union> B = A \<union> insert k B" for k :: 'a and A B
    by blast
  show ?thesis
    unfolding dict_update_def
    by (induction other arbitrary: d) (simp_all add: AList.dom_update split_beta aux)
qed

lemma keys_update_kwargs_mono: "fst ` set kw \<subseteq> fst ` set (update_kwargs so s kw)"
  by (simp add: update_kwargs_def keys_dict_update split: option.split)

lemma keys_update_kwargs_override:
  "map_of so (name s) = Some ov \<Longrightarrow> fst ` set ov \<subseteq> fst ` set (update_kwargs so s kw)"
  by (simp add: update_kwargs_def keys_dict_update)

lemma fst_unsteady_step: "fst (unsteady_step so s p) = update_kwargs so s (fst p)"
  by (cases p) (simp add: unsteady_step_def Let_def)

lemma fst_groundroll_step: "fst (groundroll_step nn so s p) = update_kwargs so s (fst p)"
  by (cases p) (simp add: groundroll_step_def Let_def)

lemma placements_add_subsystem:
  "placements (add_subsystem sc nm c pin pout st) =
     placements st @ (case c of Subsystem sys \<Rightarrow> [(sc, nm)] | _ \<Rightarrow> [])"
  by (simp add: placements_def add_subsystem_def split: component.split)

lemma placements_log_calls: "placements (log_calls cs st) = placements st"
  by (simp add: placements_def log_calls_def)

lemma placements_promoted_src_indices:
  "placements (st\<lparr> promoted_src_indices := x \<rparr>) = placements st"
  by (simp add: placements_def)

lemma placements_unsteady_step:
  "placements (snd (unsteady_step so s p)) =
     placements (snd p) @
       (if build_mission s (update_kwargs so s (fst p)) = None then [] else [(route s, name s)])"
  by (cases p)
     (auto simp: unsteady_step_def Let_def route_def placements_add_subsystem placements_log_calls
        split: option.split)

lemma placements_groundroll_step:
  "placements (snd (groundroll_step nn so s p)) =
     placements (snd p) @
       (if build_mission s (update_kwargs so s (fst p)) = None then [] else [(top_level, name s)])"
  by (cases p)
     (auto simp: groundroll_step_def Let_def placements_add_subsystem placements_log_calls
        placements_promoted_src_indices split: option.split)

lemma placements_unsteady_loop:
  "placements (snd (fold (unsteady_step so) ss p)) =
     placements (snd p) @ map (\<lambda>s. (route s, name s)) (built_subsystems so ss (fst p))"
  by (induction ss arbitrary: p)
     (simp_all add: placements_unsteady_step fst_unsteady_step)

lemma placements_groundroll_loop:
  "placements (snd (fold (groundroll_step nn so) ss p)) =
     placements (snd p) @ map (\<lambda>s. (top_level, name s)) (built_subsystems so ss (fst p))"
  by (induction ss arbitrary: p)
     (simp_all add: placements_groundroll_step fst_groundroll_step)

lemma placements_unsteady_setup:
  "placements (UnsteadySolvedODE_setup rho opts) =
     map (\<lambda>s. (route s, name s))
       (built_subsystems (subsystem_options opts) (core_subsystems opts) (unsteady_kwargs opts))"
proof -
  have a: "placements (unsteady_before_loop opts) = []"
    by (simp add: unsteady_before_loop_def Let_def placements_def add_subsystem_def ode_empty_def)
  have b: "placements (unsteady_after_loop rho opts st) = placements st" for st
    by (simp add: unsteady_after_loop_def Let_def placements_def add_subsystem_def
        set_input_defaults_call_def)
  show ?thesis
    by (simp add: UnsteadySolvedODE_setup_def a b placements_unsteady_loop)
qed

lemma placements_groundroll_setup:
  "placements (GroundrollODE_setup opts) =
     map (\<lambda>s. (top_level, name s))
       (built_subsystems (subsystem_options opts) (core_subsystems opts) (groundroll_kwargs opts))"
proof -
  have a: "placements (groundroll_before_loop opts) = []"
    by (simp add: groundroll_before_loop_def Let_def placements_def add_subsystem_def ode_empty_def)
  have b: "placements (groundroll_after_loop opts st) = placements st" for st
    by (simp add: groundroll_after_loop_def Let_def placements_def add_subsystem_def
        set_input_defaults_call_def)
  show ?thesis
    by (simp add: GroundrollODE_setup_def a b placements_groundroll_loop)
qed

text \<open>
  Claim C3, as amended. In \<open>UnsteadySolvedODE.setup\<close> the built subsystems are added, in
  declaration order, each to the group that the type of its builder selects: an aerodynamics
  builder to the control iteration group, a propulsion builder that is not an aerodynamics
  builder to the throttle balance group, any other to the top level; the name of the builder
  has no part in it. In \<open>GroundrollODE.setup\<close> every built subsystem is added to the top
  level.
\<close>

theorem subsystems_routed_by_builder_type:
  "placements (UnsteadySolvedODE_setup rho opts) =
     map (\<lambda>s. (route s, name s))
       (built_subsystems (subsystem_options opts) (core_subsystems opts) (unsteady_kwargs opts))
   \<and> placements (GroundrollODE_setup gopts) =
     map (\<lambda>s. (top_level, name s))
       (built_subsystems (subsystem_options gopts) (core_subsystems gopts) (groundroll_kwargs gopts))
   \<and> (isinstance s AerodynamicsBuilderBase \<longrightarrow> route s = control_iter_group)
   \<and> (isinstance s PropulsionBuilderBase \<and> \<not> isinstance s AerodynamicsBuilderBase
        \<longrightarrow> route s = throttle_balance_group)
   \<and> (\<not> isinstance s PropulsionBuilderBase \<and> \<not> isinstance s AerodynamicsBuilderBase
        \<longrightarrow> route s = top_level)
   \<and> route (s\<lparr> name := n \<rparr>) = route s"
  by (simp add: placements_unsteady_setup placements_groundroll_setup route_def isinstance_def)

lemma built_examples:
  "build_mission example_aero kw = Some (System ''aerodynamics'')"
  "build_mission example_prop kw = Some (System ''propulsion'')"
  "build_mission example_battery kw = Some (System ''battery'')"
  by (simp_all add: example_aero_def example_prop_def example_battery_def)

text \<open>
  Claim C3, the amended statement at the example phase with an aerodynamics, a propulsion
  and a battery builder.
\<close>

theorem subsystems_routed_by_builder_type_witness:
  "placements (UnsteadySolvedODE_setup 0 example_unsteady_opts) =
     [(control_iter_group, ''aerodynamics''), (throttle_balance_group, ''propulsion''),
      (top_level, ''battery'')]
   \<and> isinstance example_aero AerodynamicsBuilderBase
   \<and> isinstance example_prop PropulsionBuilderBase
   \<and> \<not> isinstance example_prop AerodynamicsBuilderBase
   \<and> \<not> isinstance example_battery PropulsionBuilderBase
   \<and> \<not> isinstance example_battery AerodynamicsBuilderBase"
proof -
  have cs: "core_subsystems example_unsteady_opts = [example_aero, example_prop, example_battery]"
    by (simp add: example_unsteady_opts_def)
  have i: "isinstance example_aero AerodynamicsBuilderBase"
    "isinstance example_prop PropulsionBuilderBase"
    "\<not> isinstance example_prop AerodynamicsBuilderBase"
    "\<not> isinstance example_battery PropulsionBuilderBase"
    "\<not> isinstance example_battery AerodynamicsBuilderBase"
    by (simp_all add: isinstance_def example_aero_def example_prop_def example_battery_def)
  have n: "name example_aero = ''aerodynamics''" "name example_prop = ''propulsion''"
    "name example_battery = ''battery''"
    by (simp_all add: example_aero_def example_prop_def example_battery_def)
  have r: "route example_aero = control_iter_group" "route example_prop = throttle_balance_group"
    "route example_battery = top_level"
    using subsystems_routed_by_builder_type [of 0 example_unsteady_opts example_groundroll_opts
        example_aero "''x''"]
      subsystems_routed_by_builder_type [of 0 example_unsteady_opts example_groundroll_opts
        example_prop "''x''"]
      subsystems_routed_by_builder_type [of 0 example_unsteady_opts example_groundroll_opts
        example_battery "''x''"] i
    by blast+
  have "placements (UnsteadySolvedODE_setup 0 example_unsteady_opts) =
      map (\<lambda>s. (route s, name s))
       (built_subsystems (subsystem_options example_unsteady_opts)
          (core_subsystems example_unsteady_opts) (unsteady_kwargs example_unsteady_opts))"
    using subsystems_routed_by_builder_type [of 0 example_unsteady_opts example_groundroll_opts
        example_aero "''x''"] by blast
  then show ?thesis using i by (simp add: cs built_examples r n)
qed

text \<open>
  Claim C3 as stated fails in the ground roll ODE: the propulsion and the aerodynamics
  subsystem of the example phase are added to the top level, not to a sub-group.
\<close>

theorem groundroll_propulsion_lands_in_top_level:
  "isinstance example_prop PropulsionBuilderBase
   \<and> core_subsystems example_groundroll_opts = [example_aero, example_prop, example_battery]
   \<and> placements (GroundrollODE_setup example_groundroll_opts) =
       [(top_level, ''aerodynamics''), (top_level, ''propulsion''), (top_level, ''battery'')]"
proof -
  have cs: "core_subsystems example_groundroll_opts = [example_aero, example_prop, example_battery]"
    by (simp add: example_groundroll_opts_def)
  have n: "name example_aero = ''aerodynamics''" "name example_prop = ''propulsion''"
    "name example_battery = ''battery''"
    by (simp_all add: example_aero_def example_prop_def example_battery_def)
  have "isinstance example_prop PropulsionBuilderBase"
    by (simp add: isinstance_def example_prop_def)
  then show ?thesis
    by (simp add: placements_groundroll_setup cs built_examples n)
qed


subsection \<open>The calls on the builders\<close>

lemma calls_add_subsystem: "calls (add_subsystem sc nm c pin pout st) = calls st"
  by (simp add: add_subsystem_def)

lemma calls_log_calls: "calls (log_calls cs st) = calls st @ cs"
  by (simp add: log_calls_def)

lemma calls_unsteady_step:
  "calls (snd (unsteady_step so s p)) = calls (snd p) @ loop_calls so [s] (fst p)"
  by (cases p)
     (simp add: unsteady_step_def Let_def calls_add_subsystem calls_log_calls split: option.split)

lemma calls_groundroll_step:
  "calls (snd (groundroll_step nn so s p)) = calls (snd p) @ loop_calls so [s] (fst p)"
  by (cases p)
     (simp add: groundroll_step_def Let_def calls_add_subsystem calls_log_calls split: option.split)

lemma loop_calls_Cons:
  "loop_calls so (s # ss) kw = loop_calls so [s] kw @ loop_calls so ss (update_kwargs so s kw)"
  by simp

lemma calls_unsteady_loop:
  "calls (snd (fold (unsteady_step so) ss p)) = calls (snd p) @ loop_calls so ss (fst p)"
proof (induction ss arbitrary: p)
  case Nil
  then show ?case by simp
next
  case (Cons s ss)
  show ?case
    by (simp only: fold_simps Cons.IH calls_unsteady_step fst_unsteady_step
        loop_calls_Cons [of so s ss] append_assoc)
qed

lemma calls_groundroll_loop:
  "calls (snd (fold (groundroll_step nn so) ss p)) = calls (snd p) @ loop_calls so ss (fst p)"
proof (induction ss arbitrary: p)
  case Nil
  then show ?case by simp
next
  case (Cons s ss)
  show ?case
    by (simp only: fold_simps Cons.IH calls_groundroll_step fst_groundroll_step
        loop_calls_Cons [of so s ss] append_assoc)
qed

lemma calls_unsteady_setup:
  "calls (UnsteadySolvedODE_setup rho opts) =
     loop_calls (subsystem_options opts) (core_subsystems opts) (unsteady_kwargs opts)"
proof -
  have a: "calls (unsteady_before_loop opts) = []"
    by (simp add: unsteady_before_loop_def Let_def add_subsystem_def ode_empty_def)
  have b: "calls (unsteady_after_loop rho opts st) = calls st" for st
    by (simp add: unsteady_after_loop_def Let_def add_subsystem_def set_input_defaults_call_def)
  show ?thesis
    by (simp add: UnsteadySolvedODE_setup_def a b calls_unsteady_loop)
qed

lemma calls_groundroll_setup:
  "calls (GroundrollODE_setup opts) =
     loop_calls (subsystem_options opts) (core_subsystems opts) (groundroll_kwargs opts)"
proof -
  have a: "calls (groundroll_before_loop opts) = []"
    by (simp add: groundroll_before_loop_def Let_def add_subsystem_def ode_empty_def)
  have b: "calls (groundroll_after_loop opts st) = calls st" for st
    by (simp add: groundroll_after_loop_def Let_def add_subsystem_def set_input_defaults_call_def)
  show ?thesis
    by (simp add: GroundrollODE_setup_def a b calls_groundroll_loop)
qed

lemma loop_calls_append:
  "loop_calls so (xs @ ys) kw =
     loop_calls so xs kw @ loop_calls so ys (fold (update_kwargs so) xs kw)"
  by (induction xs arbitrary: kw) simp_all

lemma loop_calls_has_key:
  "k \<in> fst ` set kw \<Longrightarrow> \<forall>c\<in>set (loop_calls so ss kw). has_key k c"
proof (induction ss arbitrary: kw)
  case Nil
  then show ?case by simp
next
  case (Cons s ss)
  have k: "k \<in> fst ` set (update_kwargs so s kw)"
    using Cons.prems keys_update_kwargs_mono [of kw so s] by blast
  show ?case
    using Cons.IH [OF k] k by (simp add: has_key_def)
qed

lemma loop_calls_build_names:
  "map call_name (filter is_build_mission_call (loop_calls so ss kw)) = map name ss"
  by (induction ss arbitrary: kw) simp_all

lemma later_calls_have_key:
  assumes "map_of so (name a) = Some overrides" and "k \<in> fst ` set overrides"
  shows "take (length (loop_calls so earlier kw)) (loop_calls so (earlier @ a # later) kw) =
           loop_calls so earlier kw
         \<and> (\<forall>c\<in>set (drop (length (loop_calls so earlier kw))
                        (loop_calls so (earlier @ a # later) kw)). has_key k c)
         \<and> map call_name (filter is_build_mission_call
              (drop (length (loop_calls so earlier kw)) (loop_calls so (earlier @ a # later) kw)))
            = name a # map name later"
proof -
  let ?kw = "fold (update_kwargs so) earlier kw"
  have k: "k \<in> fst ` set (update_kwargs so a ?kw)"
    using assms keys_update_kwargs_override [of so a overrides ?kw] by blast
  have split: "loop_calls so (earlier @ a # later) kw =
      loop_calls so earlier kw @ loop_calls so (a # later) ?kw"
    by (rule loop_calls_append)
  have rest: "\<forall>c\<in>set (loop_calls so (a # later) ?kw). has_key k c"
    using loop_calls_has_key [OF k, of so later] k by (simp add: has_key_def)
  have names: "map call_name (filter is_build_mission_call (loop_calls so (a # later) ?kw)) =
      name a # map name later"
    using loop_calls_build_names [of so "a # later" ?kw] by simp
  show ?thesis
    unfolding split using rest names by simp
qed

text \<open>
  Claim C9. In both setups the keyword arguments accumulate: when \<open>subsystem_options\<close> has an
  entry for a subsystem, every key of that entry is among the keyword arguments of every call
  made from that subsystem's iteration on (its own \<open>build_mission\<close>, \<open>mission_inputs\<close> and
  \<open>mission_outputs\<close> calls and those of every later subsystem, each of which gets its
  \<open>build_mission\<close> call), because the one dictionary is updated and never reset.
\<close>

theorem kwargs_accumulate_over_later_subsystems:
  assumes "map_of so (name a) = Some overrides" and "k \<in> fst ` set overrides"
  shows
    "(subsystem_options opts = so \<and> core_subsystems opts = earlier @ a # later \<longrightarrow>
        take (length (calls (UnsteadySolvedODE_setup rho (opts\<lparr> core_subsystems := earlier \<rparr>))))
             (calls (UnsteadySolvedODE_setup rho opts))
          = calls (UnsteadySolvedODE_setup rho (opts\<lparr> core_subsystems := earlier \<rparr>))
        \<and> (\<forall>c\<in>set (drop
               (length (calls (UnsteadySolvedODE_setup rho (opts\<lparr> core_subsystems := earlier \<rparr>))))
               (calls (UnsteadySolvedODE_setup rho opts))). has_key k c)
        \<and> map call_name (filter is_build_mission_call (drop
               (length (calls (UnsteadySolvedODE_setup rho (opts\<lparr> core_subsystems := earlier \<rparr>))))
               (calls (UnsteadySolvedODE_setup rho opts))))
            = name a # map name later)
     \<and> (subsystem_options gopts = so \<and> core_subsystems gopts = earlier @ a # later \<longrightarrow>
        take (length (calls (GroundrollODE_setup (gopts\<lparr> core_subsystems := earlier \<rparr>))))
             (calls (GroundrollODE_setup gopts))
          = calls (GroundrollODE_setup (gopts\<lparr> core_subsystems := earlier \<rparr>))
        \<and> (\<forall>c\<in>set (drop
               (length (calls (GroundrollODE_setup (gopts\<lparr> core_subsystems := earlier \<rparr>))))
               (calls (GroundrollODE_setup gopts))). has_key k c)
        \<and> map call_name (filter is_build_mission_call (drop
               (length (calls (GroundrollODE_setup (gopts\<lparr> core_subsystems := earlier \<rparr>))))
               (calls (GroundrollODE_setup gopts))))
            = name a # map name later)"
proof (intro conjI impI)
  assume h: "subsystem_options opts = so \<and> core_subsystems opts = earlier @ a # later"
  have kw: "unsteady_kwargs (opts\<lparr> core_subsystems := earlier \<rparr>) = unsteady_kwargs opts"
    by (simp add: unsteady_kwargs_def)
  note l = later_calls_have_key [OF assms, of earlier "unsteady_kwargs opts" later]
  show "take (length (calls (UnsteadySolvedODE_setup rho (opts\<lparr> core_subsystems := earlier \<rparr>))))
             (calls (UnsteadySolvedODE_setup rho opts))
          = calls (UnsteadySolvedODE_setup rho (opts\<lparr> core_subsystems := earlier \<rparr>))"
    using h l by (simp add: calls_unsteady_setup kw)
  show "\<forall>c\<in>set (drop
               (length (calls (UnsteadySolvedODE_setup rho (opts\<lparr> core_subsystems := earlier \<rparr>))))
               (calls (UnsteadySolvedODE_setup rho opts))). has_key k c"
    using h l by (simp add: calls_unsteady_setup kw)
  show "map call_name (filter is_build_mission_call (drop
               (length (calls (UnsteadySolvedODE_setup rho (opts\<lparr> core_subsystems := earlier \<rparr>))))
               (calls (UnsteadySolvedODE_setup rho opts))))
            = name a # map name later"
    using h l by (simp add: calls_unsteady_setup kw)
next
  assume h: "subsystem_options gopts = so \<and> core_subsystems gopts = earlier @ a # later"
  have kw: "groundroll_kwargs (gopts\<lparr> core_subsystems := earlier \<rparr>) = groundroll_kwargs gopts"
    by (simp add: groundroll_kwargs_def)
  note l = later_calls_have_key [OF assms, of earlier "groundroll_kwargs gopts" later]
  show "take (length (calls (GroundrollODE_setup (gopts\<lparr> core_subsystems := earlier \<rparr>))))
             (calls (GroundrollODE_setup gopts))
          = calls (GroundrollODE_setup (gopts\<lparr> core_subsystems := earlier \<rparr>))"
    using h l by (simp add: calls_groundroll_setup kw)
  show "\<forall>c\<in>set (drop
               (length (calls (GroundrollODE_setup (gopts\<lparr> core_subsystems := earlier \<rparr>))))
               (calls (GroundrollODE_setup gopts))). has_key k c"
    using h l by (simp add: calls_groundroll_setup kw)
  show "map call_name (filter is_build_mission_call (drop
               (length (calls (GroundrollODE_setup (gopts\<lparr> core_subsystems := earlier \<rparr>))))
               (calls (GroundrollODE_setup gopts))))
            = name a # map name later"
    using h l by (simp add: calls_groundroll_setup kw)
qed

text \<open>
  Claim C9 at the example phases: only the aerodynamics builder has an entry in
  \<open>subsystem_options\<close>, and its key \<open>solve_alpha\<close> is passed to the propulsion and the
  battery builder as well.
\<close>

theorem kwargs_accumulate_over_later_subsystems_witness:
  "map_of (subsystem_options example_unsteady_opts) (name example_aero)
     = Some [(''solve_alpha'', PBool True)]
   \<and> map_of (subsystem_options example_unsteady_opts) (name example_prop) = None
   \<and> core_subsystems example_unsteady_opts = [] @ example_aero # [example_prop, example_battery]
   \<and> list_all (has_key ''solve_alpha'') (calls (UnsteadySolvedODE_setup 0 example_unsteady_opts))
   \<and> map call_name (filter is_build_mission_call
        (calls (UnsteadySolvedODE_setup 0 example_unsteady_opts)))
      = [''aerodynamics'', ''propulsion'', ''battery'']
   \<and> list_all (has_key ''solve_alpha'') (calls (GroundrollODE_setup example_groundroll_opts))"
proof -
  have so: "map_of (subsystem_options example_unsteady_opts) (name example_aero)
      = Some [(''solve_alpha'', PBool True)]"
    "map_of (subsystem_options example_unsteady_opts) (name example_prop) = None"
    by (simp_all add: example_unsteady_opts_def example_aero_def example_prop_def)
  have k: "''solve_alpha'' \<in> fst ` set [(''solve_alpha'', PBool True)]" by simp
  have cs: "core_subsystems example_unsteady_opts = [] @ example_aero # [example_prop, example_battery]"
    "core_subsystems example_groundroll_opts = [] @ example_aero # [example_prop, example_battery]"
    "subsystem_options example_groundroll_opts = subsystem_options example_unsteady_opts"
    by (simp_all add: example_unsteady_opts_def example_groundroll_opts_def)
  have e: "calls (UnsteadySolvedODE_setup 0 (example_unsteady_opts\<lparr> core_subsystems := [] \<rparr>)) = []"
    "calls (GroundrollODE_setup (example_groundroll_opts\<lparr> core_subsystems := [] \<rparr>)) = []"
    by (simp_all add: calls_unsteady_setup calls_groundroll_setup)
  have n: "name example_aero = ''aerodynamics''" "name example_prop = ''propulsion''"
    "name example_battery = ''battery''"
    by (simp_all add: example_aero_def example_prop_def example_battery_def)
  show ?thesis
    using kwargs_accumulate_over_later_subsystems [OF so(1) k,
        of example_unsteady_opts "[]" "[example_prop, example_battery]" 0 example_groundroll_opts]
      so cs
    by (simp add: e n list_all_iff)
qed


subsection \<open>The ground roll ODE\<close>

lemma find_append_Some: "find P xs = Some x \<Longrightarrow> find P (xs @ ys) = Some x"
  by (induction xs) (auto split: if_splits)

lemma subsystems_groundroll_step:
  "\<exists>extra. subsystems (snd (groundroll_step nn so s p)) = subsystems (snd p) @ extra"
  by (cases p)
     (simp add: groundroll_step_def Let_def add_subsystem_def log_calls_def split: option.split)

lemma subsystems_groundroll_loop:
  "\<exists>extra. subsystems (snd (fold (groundroll_step nn so) ss p)) = subsystems (snd p) @ extra"
proof (induction ss arbitrary: p)
  case Nil
  then show ?case by simp
next
  case (Cons s ss)
  obtain e1 where e1: "subsystems (snd (groundroll_step nn so s p)) = subsystems (snd p) @ e1"
    using subsystems_groundroll_step by blast
  obtain e2 where "subsystems (snd (fold (groundroll_step nn so) ss (groundroll_step nn so s p))) =
      subsystems (snd (groundroll_step nn so s p)) @ e2"
    using Cons.IH by blast
  then show ?case using e1 by simp
qed

lemma subsystems_groundroll_after_loop:
  "\<exists>extra. subsystems (groundroll_after_loop opts st) = subsystems st @ extra"
  by (simp add: groundroll_after_loop_def Let_def add_subsystem_def set_input_defaults_call_def)

lemma init_alpha_found:
  "find_subsystem (GroundrollODE_setup opts) ''init_alpha'' =
     Some \<lparr> in_scope = top_level, sub_name = ''init_alpha'',
            subsys = ExecComp ''alpha'' (V ''i_wing'')
              [ExecVar ''i_wing'' (Some ''deg'') (Some [1.1]) None,
               ExecVar ''alpha'' (Some ''deg'')
                 (Some (map (\<lambda>x. 1.1 * x) (np_full (num_nodes opts) 1))) None],
            promotes_inputs = [Alias ''i_wing'' ''Aircraft.Wing.INCIDENCE'', Name ''alpha''],
            promotes_outputs = [Alias ''i_wing'' ''Aircraft.Wing.INCIDENCE'', Name ''alpha''] \<rparr>"
proof -
  let ?e = "\<lparr> in_scope = top_level, sub_name = ''init_alpha'',
            subsys = ExecComp ''alpha'' (V ''i_wing'')
              [ExecVar ''i_wing'' (Some ''deg'') (Some [1.1]) None,
               ExecVar ''alpha'' (Some ''deg'')
                 (Some (map (\<lambda>x. 1.1 * x) (np_full (num_nodes opts) 1))) None],
            promotes_inputs = [Alias ''i_wing'' ''Aircraft.Wing.INCIDENCE'', Name ''alpha''],
            promotes_outputs = [Alias ''i_wing'' ''Aircraft.Wing.INCIDENCE'', Name ''alpha''] \<rparr>"
  have a: "find (\<lambda>e. sub_name e = ''init_alpha'') (subsystems (groundroll_before_loop opts)) = Some ?e"
    by (simp add: groundroll_before_loop_def Let_def add_subsystem_def ode_empty_def)
  obtain e1 where e1: "subsystems (snd (fold (groundroll_step (num_nodes opts) (subsystem_options opts))
        (core_subsystems opts) (groundroll_kwargs opts, groundroll_before_loop opts))) =
      subsystems (groundroll_before_loop opts) @ e1"
    using subsystems_groundroll_loop
      [of "num_nodes opts" "subsystem_options opts" "core_subsystems opts"
          "(groundroll_kwargs opts, groundroll_before_loop opts)"] by auto
  obtain e2 where e2: "subsystems (GroundrollODE_setup opts) =
      (subsystems (groundroll_before_loop opts) @ e1) @ e2"
    unfolding GroundrollODE_setup_def using subsystems_groundroll_after_loop e1 by metis
  show ?thesis
    unfolding find_subsystem_def e2 append_assoc
    by (rule find_append_Some [OF a])
qed

lemma balances_groundroll_step:
  "balances (snd (groundroll_step nn so s p)) = balances (snd p)"
  by (cases p)
     (simp add: groundroll_step_def Let_def balances_def add_subsystem_def log_calls_def
        split: option.split)

lemma balances_groundroll_loop:
  "balances (snd (fold (groundroll_step nn so) ss p)) = balances (snd p)"
  by (induction ss arbitrary: p) (simp_all add: balances_groundroll_step)

lemma balances_groundroll_setup: "balances (GroundrollODE_setup opts) = []"
proof -
  have a: "balances (groundroll_before_loop opts) = []"
    by (simp add: groundroll_before_loop_def Let_def balances_def add_subsystem_def ode_empty_def)
  have b: "balances (groundroll_after_loop opts st) = balances st" for st
    by (simp add: groundroll_after_loop_def Let_def balances_def add_subsystem_def
        set_input_defaults_call_def)
  show ?thesis
    by (simp add: GroundrollODE_setup_def a b balances_groundroll_loop)
qed

lemma incidence_default:
  "last (input_defaults (GroundrollODE_setup opts)) =
     (''Aircraft.Wing.INCIDENCE'', [- 0.854237], Some ''deg'')"
  by (simp add: GroundrollODE_setup_def groundroll_after_loop_def Let_def
      set_input_defaults_call_def)

text \<open>
  Claim C10. In the ground roll ODE the angle of attack is not solved for: the model has no
  balance at all, and the component \<open>init_alpha\<close> sets \<open>alpha\<close> at each of the \<open>num_nodes\<close>
  nodes to the one value of its input \<open>i_wing\<close>, which is promoted as
  \<open>Aircraft.Wing.INCIDENCE\<close> and whose default is set to -0.854237 degrees.
\<close>

theorem groundroll_alpha_is_wing_incidence:
  "(inputs ''i_wing'' = [i_wing] \<longrightarrow>
      compute_subsystem (GroundrollODE_setup opts) ''init_alpha'' inputs
        = Some (replicate (num_nodes opts) i_wing))
   \<and> map_option (\<lambda>e. (in_scope e, promotes_inputs e, promotes_outputs e))
        (find_subsystem (GroundrollODE_setup opts) ''init_alpha'')
      = Some (top_level, [Alias ''i_wing'' ''Aircraft.Wing.INCIDENCE'', Name ''alpha''],
              [Alias ''i_wing'' ''Aircraft.Wing.INCIDENCE'', Name ''alpha''])
   \<and> last (input_defaults (GroundrollODE_setup opts))
      = (''Aircraft.Wing.INCIDENCE'', [- 0.854237], Some ''deg'')
   \<and> balances (GroundrollODE_setup opts) = []"
  by (cases "num_nodes opts = 1")
     (simp_all add: compute_subsystem_def init_alpha_found incidence_default
        balances_groundroll_setup np_full_def)

text \<open>
  Claim C10 at the example phase: with the default incidence the three nodes get -0.854237.
\<close>

theorem groundroll_alpha_is_wing_incidence_witness:
  "compute_subsystem (GroundrollODE_setup example_groundroll_opts) ''init_alpha''
     (\<lambda>x. if x = ''i_wing'' then [- 0.854237] else [])
     = Some [- 0.854237, - 0.854237, - 0.854237]"
proof -
  have n: "num_nodes example_groundroll_opts = 3" by (simp add: example_groundroll_opts_def)
  show ?thesis
    using groundroll_alpha_is_wing_incidence
      [of "\<lambda>x. if x = ''i_wing'' then [- 0.854237] else []" "- 0.854237" example_groundroll_opts]
    by (simp add: n numeral_3_eq_3)
qed


section \<open>Properties of the propeller map ingestion\<close>

lemma read_loop_data: "read_loop e raw pm = Inr pm' \<Longrightarrow> data pm' = data pm"
  by (induction e raw pm rule: read_loop.induct) (auto split: option.splits sum.splits)

lemma read_loop_propeller_variables:
  "read_loop e raw pm = Inr pm' \<Longrightarrow>
     fst ` set (propeller_variables pm') =
       fst ` set (propeller_variables pm) \<union> {k. Var k \<in> fst ` set raw}"
  by (induction e raw pm rule: read_loop.induct)
     (auto simp: AList.dom_update split: option.splits sum.splits)


lemma read_loop_untouched:
  "read_loop e raw pm = Inr pm' \<Longrightarrow> key \<notin> fst ` set raw \<Longrightarrow>
     map_of (original_data pm') key = map_of (original_data pm) key"
  by (induction e raw pm rule: read_loop.induct)
     (auto simp: AList.update_conv' split: option.splits sum.splits)



lemma read_loop_keeps_keys:
  "read_loop e raw pm = Inr pm' \<Longrightarrow> fst ` set (original_data pm) \<subseteq> fst ` set (original_data pm')"
  by (induction e raw pm rule: read_loop.induct)
     (auto simp: AList.dom_update split: option.splits sum.splits)

lemma those_map_Some: "\<forall>x\<in>set xs. f x \<noteq> None \<Longrightarrow> \<exists>ys. those (map f xs) = Some ys"
  by (induction xs) auto

lemma read_loop_succeeds:
  "\<forall>(key, val, units)\<in>set raw. \<exists>k. key = Var k
      \<and> (\<forall>i\<in>set val. convert_units e i units (default_prop_units e k) \<noteq> None) \<Longrightarrow>
   \<exists>pm'. read_loop e raw pm = Inr pm'"
proof (induction e raw pm rule: read_loop.induct)
  case (1 e pm)
  then show ?case by simp
next
  case (2 e k val units rest pm)
  have "\<forall>i\<in>set val. convert_units e i units (default_prop_units e k) \<noteq> None"
    using "2.prems" by auto
  then obtain val' where v: "those (map (\<lambda>i. convert_units e i units (default_prop_units e k)) val)
      = Some val'"
    using those_map_Some [of val "\<lambda>i. convert_units e i units (default_prop_units e k)"] by blast
  show ?case
    using "2.IH" [OF v] "2.prems" by (simp add: v)
next
  case (3 e h val units rest pm)
  then show ?case by auto
qed

lemma copy_data_succeeds:
  "\<forall>k\<in>set keys. Var k \<in> fst ` set orig \<Longrightarrow>
     \<exists>d'. copy_data orig keys d = Inr d'
        \<and> (\<forall>k. map_of d' k = (if k \<in> set keys then map_of orig (Var k) else map_of d k))"
proof (induction keys arbitrary: d)
  case Nil
  then show ?case by simp
next
  case (Cons key keys)
  have "map_of orig (Var key) \<noteq> None"
    using Cons.prems by (simp add: map_of_eq_None_iff)
  then obtain v where v: "map_of orig (Var key) = Some v"
    by blast
  obtain d' where d': "copy_data orig keys (AList.update key v d) = Inr d'"
    "\<forall>k. map_of d' k =
       (if k \<in> set keys then map_of orig (Var k) else map_of (AList.update key v d) k)"
    using Cons.IH [of "AList.update key v d"] Cons.prems by auto
  show ?case
    using d' v by (auto simp: AList.update_conv')
qed








text \<open>
  Claim C8. A table with exactly a Mach and a thrust coefficient column, whose values convert
  to the expected units, loads; \<open>propeller_variables\<close> then has exactly the keys \<open>MACH\<close> and
  \<open>CT\<close>, and the data of \<open>CP\<close> and of \<open>J\<close> are empty sequences.
\<close>

theorem mach_and_ct_columns_only:
  assumes "fst ` set raw = {Var MACH, Var CT}"
    and "\<forall>(key, val, units)\<in>set raw. \<forall>k. key = Var k \<longrightarrow>
           (\<forall>i\<in>set val. convert_units e i units (default_prop_units e k) \<noteq> None)"
  shows "\<exists>pm. PropellerMap_init e raw = Inr pm
           \<and> fst ` set (propeller_variables pm) = {MACH, CT}
           \<and> map_of (data pm) CP = Some []
           \<and> map_of (data pm) J = Some []"
proof -
  have rec: "\<forall>(key, val, units)\<in>set raw. \<exists>k. key = Var k
      \<and> (\<forall>i\<in>set val. convert_units e i units (default_prop_units e k) \<noteq> None)"
  proof (clarify)
    fix key val units
    assume m: "(key, val, units) \<in> set raw"
    then have "key \<in> fst ` set raw" by force
    then have "key = Var MACH \<or> key = Var CT" using assms(1) by simp
    then obtain k where k: "key = Var k" by blast
    then show "\<exists>k. key = Var k
        \<and> (\<forall>i\<in>set val. convert_units e i units (default_prop_units e k) \<noteq> None)"
      using assms(2) m by blast
  qed
  obtain pm1 where pm1: "read_loop e raw PropellerMap_new = Inr pm1"
    using read_loop_succeeds [OF rec] by blast
  have pv: "fst ` set (propeller_variables pm1) = {MACH, CT}"
    using read_loop_propeller_variables [OF pm1] assms(1)
    by (auto simp: PropellerMap_new_def)
  then have ne: "propeller_variables pm1 \<noteq> []" by auto
  have d: "data pm1 = data PropellerMap_new"
    by (rule read_loop_data [OF pm1])
  have keys: "\<forall>k\<in>set (map fst (data pm1)). Var k \<in> fst ` set (original_data pm1)"
    using read_loop_keeps_keys [OF pm1]
    by (auto simp: d PropellerMap_new_def PropModelVariables_members_def)
  obtain d' where d': "copy_data (original_data pm1) (map fst (data pm1)) (data pm1) = Inr d'"
    "\<forall>k. map_of d' k = (if k \<in> set (map fst (data pm1)) then map_of (original_data pm1) (Var k)
                          else map_of (data pm1) k)"
    using copy_data_succeeds [OF keys] by blast
  have cp: "map_of (original_data pm1) (Var CP) = Some []"
    using read_loop_untouched [OF pm1, of "Var CP"] assms(1)
    by (simp add: PropellerMap_new_def PropModelVariables_members_def)
  have j: "map_of (original_data pm1) (Var J) = Some []"
    using read_loop_untouched [OF pm1, of "Var J"] assms(1)
    by (simp add: PropellerMap_new_def PropModelVariables_members_def)
  have mem: "CP \<in> set (map fst (data pm1))" "J \<in> set (map fst (data pm1))"
    by (simp_all add: d PropellerMap_new_def PropModelVariables_members_def)
  have "PropellerMap_init e raw = Inr (pm1\<lparr> data := d' \<rparr>)"
    using pm1 ne d'(1) by (simp add: PropellerMap_init_def read_data_def)
  moreover have "map_of d' CP = Some []" "map_of d' J = Some []"
    using d'(2) mem cp j by simp_all
  ultimately show ?thesis using pv by simp
qed

text \<open>Claim C8 at a table of two rows under the example environment.\<close>

theorem mach_and_ct_columns_only_witness:
  "\<exists>pm. PropellerMap_init (example_env 1)
          [(Var MACH, [1 / 2, 3 / 5], ''unitless''), (Var CT, [1 / 10, 1 / 5], ''unitless'')] = Inr pm
      \<and> fst ` set (propeller_variables pm) = {MACH, CT}
      \<and> map_of (data pm) CP = Some []
      \<and> map_of (data pm) J = Some []"
proof -
  let ?raw = "[(Var MACH, [1 / 2, 3 / 5], ''unitless''), (Var CT, [1 / 10, 1 / 5], ''unitless'')]"
  have a: "fst ` set ?raw = {Var MACH, Var CT}" by simp
  have b: "\<forall>(key, val, units)\<in>set ?raw. \<forall>k. key = Var k \<longrightarrow>
      (\<forall>i\<in>set val. convert_units (example_env 1) i units (default_prop_units (example_env 1) k)
         \<noteq> None)"
    by (simp add: example_env_def del: not_None_eq)
  show ?thesis
    by (rule mach_and_ct_columns_only [OF a b])
qed

end
